theory Spec2Isabelle
  imports Main
begin

section \<open>Values, paths and diff entries\<close>

text \<open>
  The reconciliation code of \<^verbatim>\<open>live-sync.ts\<close> works on untyped JavaScript values. A value is
  \<^verbatim>\<open>undefined\<close>, \<^verbatim>\<open>null\<close>, a boolean, a number, a string, an array or an object; an object
  is an association list in the enumeration order of its own keys (\<^verbatim>\<open>Object.entries\<close> reads it
  in that order: the integer-like keys in ascending order first, then the other keys in the
  order they were added). Numbers are integers here: no claim depends on fractions or
  \<^verbatim>\<open>NaN\<close>. \<open>JFunction\<close> is a value that is not data: what reading a key that every object
  inherits gives (the built-in functions \<^verbatim>\<open>constructor\<close>, \<^verbatim>\<open>toString\<close>, ..., and the
  prototype object under \<^verbatim>\<open>__proto__\<close>). Such a value is truthy, is not \<^verbatim>\<open>===\<close> to any
  data, is not iterable and has none of the fields that the code reads from an entity;
  nothing else about it matters here.
\<close>

datatype jsval =
    JUndefined
  | JNull
  | JBool bool
  | JNum int
  | JStr string
  | JArr "jsval list"
  | JObj "(string \<times> jsval) list"
  | JFunction

text \<open>
  The names that a plain object inherits from \<^verbatim>\<open>Object.prototype\<close>: \<^verbatim>\<open>k in obj\<close> is true for
  them and \<^verbatim>\<open>obj[k]\<close> reads the inherited value, whether or not \<open>obj\<close> has a key of its own.
\<close>

definition inheritedKeys :: "string list" where
  "inheritedKeys =
     [''constructor'', ''__defineGetter__'', ''__defineSetter__'', ''hasOwnProperty'',
      ''__lookupGetter__'', ''__lookupSetter__'', ''isPrototypeOf'', ''propertyIsEnumerable'',
      ''toString'', ''valueOf'', ''__proto__'', ''toLocaleString'']"

text \<open>
  A path segment is a string key or an array index. Reading an array beyond its end, or
  destructuring a path that is too short, gives \<^verbatim>\<open>undefined\<close>: that is the third constructor,
  and the code can put it back into a path (\<^verbatim>\<open>['paths', nextPath]\<close>).
\<close>

datatype seg = Key string | Idx nat | Undef

datatype kind = CREATE | REMOVE | CHANGE

text \<open>
  A diff entry of the \<^verbatim>\<open>microdiff\<close> library. A field the entry does not have reads as
  \<^verbatim>\<open>undefined\<close>. The source's field \<^verbatim>\<open>value\<close> is \<open>val\<close> here.
\<close>

record difference =
  type :: kind
  path :: "seg list"
  val :: jsval
  oldValue :: jsval

text \<open>\<^verbatim>\<open>p[i]\<close> on a path array.\<close>

definition at :: "seg list \<Rightarrow> nat \<Rightarrow> seg" where
  "at p i = (if i < length p then p ! i else Undef)"

text \<open>\<^verbatim>\<open>p.at(-1)\<close> and \<^verbatim>\<open>p[p.length - 1]\<close>.\<close>

definition at_last :: "seg list \<Rightarrow> seg" where
  "at_last p = (if p = [] then Undef else last p)"

text \<open>A path segment used as a value (\<^verbatim>\<open>oldValue: currPath\<close>).\<close>

fun seg_value :: "seg \<Rightarrow> jsval" where
  "seg_value (Key s) = JStr s"
| "seg_value (Idx n) = JNum (int n)"
| "seg_value Undef = JUndefined"

text \<open>
  JavaScript truthiness of a segment, as \<^verbatim>\<open>currMethod && nextMethod\<close> tests it: the empty
  string, the number 0 and \<^verbatim>\<open>undefined\<close> are falsy.
\<close>

fun seg_truthy :: "seg \<Rightarrow> bool" where
  "seg_truthy (Key s) = (s \<noteq> [])"
| "seg_truthy (Idx n) = (n \<noteq> 0)"
| "seg_truthy Undef = False"

text \<open>\<^verbatim>\<open>typeof k === 'number'\<close> and \<^verbatim>\<open>typeof k === 'string'\<close>.\<close>

fun is_number :: "seg \<Rightarrow> bool" where
  "is_number (Idx n) = True"
| "is_number (Key s) = False"
| "is_number Undef = False"

fun is_string :: "seg \<Rightarrow> bool" where
  "is_string (Key s) = True"
| "is_string (Idx n) = False"
| "is_string Undef = False"

section \<open>Throws\<close>

text \<open>
  What the code throws: a \<^verbatim>\<open>TypeError\<close> of the language (a property of \<^verbatim>\<open>undefined\<close> or
  \<^verbatim>\<open>null\<close>, a value that is not iterable, a method that does not exist, the operator
  \<^verbatim>\<open>in\<close> on a primitive), and the \<^verbatim>\<open>ZodError\<close> of the throwing \<^verbatim>\<open>schema.parse\<close>. A
  computation that can throw returns \<open>Inl\<close> of the error or \<open>Inr\<close> of its value.
\<close>

datatype error = TypeError | ZodError

text \<open>Sequencing: the first throw ends the computation.\<close>

definition andThen :: "error + 'a \<Rightarrow> ('a \<Rightarrow> error + 'b) \<Rightarrow> error + 'b" where
  "andThen r f = (case r of Inl e \<Rightarrow> Inl e | Inr x \<Rightarrow> f x)"

text \<open>
  Two computations of lists one after the other: the first throw, or the two lists
  appended.
\<close>

definition appendE :: "error + 'a list \<Rightarrow> error + 'a list \<Rightarrow> error + 'a list" where
  "appendE a b =
     (case a of
        Inl e \<Rightarrow> Inl e
      | Inr xs \<Rightarrow> (case b of Inl e \<Rightarrow> Inl e | Inr ys \<Rightarrow> Inr (xs @ ys)))"

section \<open>combineRenameDiffs\<close>

text \<open>
  The function loops over the array \<^verbatim>\<open>diff\<close> with an index and the flag \<^verbatim>\<open>skipNext\<close>. In a
  nested call (a non-empty \<^verbatim>\<open>pathPrefix\<close>) it assigns to \<^verbatim>\<open>current.path\<close> and \<^verbatim>\<open>next.path\<close>,
  which are entries of the array it was given; so the array is state, threaded through the
  loop and returned with the output. The entries of one array are distinct objects, as
  \<^verbatim>\<open>microdiff\<close> builds them.

  \<^verbatim>\<open>microdiff\<close> is an external library: it is the parameter \<open>microdiff\<close>, any function from
  two values to a list of entries or a throw. The call \<^verbatim>\<open>microdiff(current.oldValue,
  next.value)\<close> is not guarded, so a throw of the library is a throw of
  \<^verbatim>\<open>combineRenameDiffs\<close>: the loop ends there, with the array as it is at that moment.
\<close>

text \<open>\<^verbatim>\<open>d.path = [...pathPrefix, ...d.path]\<close>\<close>

definition prefixed :: "seg list \<Rightarrow> difference \<Rightarrow> difference" where
  "prefixed pathPrefix d = d\<lparr>path := pathPrefix @ path d\<rparr>"

text \<open>
  \<^verbatim>\<open>current.path = [...pathPrefix, ...current.path]; if (next) next.path = [...pathPrefix, ...next.path]\<close>
  at index \<open>i\<close> of the array.
\<close>

definition prefixPaths :: "seg list \<Rightarrow> nat \<Rightarrow> difference list \<Rightarrow> difference list" where
  "prefixPaths pathPrefix i diff =
     (let d1 = diff[i := prefixed pathPrefix (diff ! i)]
      in if Suc i < length d1 then d1[Suc i := prefixed pathPrefix (d1 ! Suc i)] else d1)"

text \<open>\<^verbatim>\<open>next?.type === 'CREATE'\<close>: the next entry when it exists and is a CREATE.\<close>

definition nextCreate :: "difference option \<Rightarrow> difference option" where
  "nextCreate next = (case next of None \<Rightarrow> None
     | Some n \<Rightarrow> if type n = CREATE then Some n else None)"

text \<open>
  \<^verbatim>\<open>combined.push(...xs)\<close> followed by the rest of the loop: the output is what was pushed
  and then what the rest pushes, unless the rest throws.
\<close>

definition emit ::
  "'a list \<Rightarrow> (error + 'a list) \<times> 'b \<Rightarrow> (error + 'a list) \<times> 'b" where
  "emit xs r = (case fst r of Inl e \<Rightarrow> Inl e | Inr ys \<Rightarrow> Inr (xs @ ys), snd r)"

text \<open>
  The same after a step that can throw: when \<open>inner\<close> is a throw the loop ends with the
  array \<open>here\<close>; otherwise \<open>xs\<close> and the entries of \<open>inner\<close> are pushed and the loop goes on.
\<close>

definition emitAfter ::
  "error + 'a list \<Rightarrow> 'b \<Rightarrow> 'a list \<Rightarrow> (error + 'a list) \<times> 'b \<Rightarrow> (error + 'a list) \<times> 'b" where
  "emitAfter inner here xs rest =
     (case inner of Inl e \<Rightarrow> (Inl e, here) | Inr ys \<Rightarrow> emit (xs @ ys) rest)"

text \<open>
  The rename candidate: \<^verbatim>\<open>current.type === 'REMOVE' && next?.type === 'CREATE'\<close> gives the
  CREATE entry that follows, when there is one.
\<close>

definition renameCandidate :: "difference \<Rightarrow> difference option \<Rightarrow> difference option" where
  "renameCandidate current next = (if type current = REMOVE then nextCreate next else None)"

text \<open>
  \<^verbatim>\<open>currMethod && nextMethod && currMethod !== nextMethod\<close>, with
  \<^verbatim>\<open>[, currPath, currMethod] = current.path\<close> and \<^verbatim>\<open>[, nextPath, nextMethod] = next.path\<close>.
\<close>

definition methodRenamed :: "difference \<Rightarrow> difference \<Rightarrow> bool" where
  "methodRenamed current nxt =
     (let currMethod = at (path current) 2; nextMethod = at (path nxt) 2
      in seg_truthy currMethod \<and> seg_truthy nextMethod \<and> currMethod \<noteq> nextMethod)"

text \<open>The entries pushed for the path rename and for the method rename, in this order.\<close>

definition renameEntries :: "difference \<Rightarrow> difference \<Rightarrow> difference list" where
  "renameEntries current nxt =
     (let currPath = at (path current) 1;
          currMethod = at (path current) 2;
          nextPath = at (path nxt) 1;
          nextMethod = at (path nxt) 2
      in (if currPath \<noteq> nextPath then
            [\<lparr>type = CHANGE, path = [Key ''paths'', Key ''path''],
              val = seg_value nextPath, oldValue = seg_value currPath\<rparr>]
          else [])
       @ (if methodRenamed current nxt then
            [\<lparr>type = CHANGE, path = [Key ''paths'', nextPath, Key ''method''],
              val = seg_value nextMethod, oldValue = seg_value currMethod\<rparr>]
          else []))"

text \<open>
  \<^verbatim>\<open>nestedPrefix = ['paths', nextPath]\<close>, with \<^verbatim>\<open>nestedPrefix.push(nextMethod)\<close> in the branch of
  the method rename.
\<close>

definition nestedPrefix :: "difference \<Rightarrow> difference \<Rightarrow> seg list" where
  "nestedPrefix current nxt =
     [Key ''paths'', at (path nxt) 1]
       @ (if methodRenamed current nxt then [at (path nxt) 2] else [])"

text \<open>
  The last three branches of the chain: a CREATE or a REMOVE deeper than three segments
  whose last segment is not a number becomes a CHANGE, anything else is pushed as it is.
\<close>

definition simplified :: "difference \<Rightarrow> difference" where
  "simplified current =
     (if type current = CREATE \<and> length (path current) > 3
         \<and> \<not> is_number (at_last (path current))
      then current\<lparr>type := CHANGE, oldValue := JUndefined\<rparr>
      else if type current = REMOVE \<and> length (path current) > 3
         \<and> \<not> is_number (at_last (path current))
      then current\<lparr>type := CHANGE, val := JUndefined\<rparr>
      else current)"

text \<open>
  The loop from index \<open>i\<close>: the entries pushed to \<^verbatim>\<open>combined\<close> from there on, or the throw
  that ended the loop; and the array as the loop leaves it. In the branch of the rename
  candidate, at the outermost level only, the bodies are diffed and a diff that is not
  empty is combined under the nested prefix.
\<close>

function combineLoop ::
  "(jsval \<Rightarrow> jsval \<Rightarrow> error + difference list) \<Rightarrow> seg list \<Rightarrow> bool \<Rightarrow> nat \<Rightarrow> difference list
     \<Rightarrow> (error + difference list) \<times> difference list" where
  "combineLoop microdiff pathPrefix skipNext i diff =
    (if length diff \<le> i then (Inr [], diff)
     else if skipNext then combineLoop microdiff pathPrefix False (Suc i) diff
     else
       let diff' = (if pathPrefix \<noteq> [] then prefixPaths pathPrefix i diff else diff);
           current = diff' ! i;
           next = (if Suc i < length diff' then Some (diff' ! Suc i) else None)
       in
         if pathPrefix = [] \<and> at (path current) 0 \<noteq> Key ''paths'' then
           emit [current] (combineLoop microdiff pathPrefix False (Suc i) diff')
         else
           (case renameCandidate current next of
              Some nxt \<Rightarrow>
                emitAfter
                  (if pathPrefix = [] then
                     (case microdiff (oldValue current) (val nxt) of
                        Inl e \<Rightarrow> Inl e
                      | Inr innerDiff \<Rightarrow>
                          if innerDiff \<noteq> []
                          then fst (combineLoop microdiff (nestedPrefix current nxt)
                                      False 0 innerDiff)
                          else Inr [])
                   else Inr [])
                  diff'
                  (renameEntries current nxt)
                  (combineLoop microdiff pathPrefix True (Suc i) diff')
            | None \<Rightarrow>
                emit [simplified current]
                  (combineLoop microdiff pathPrefix False (Suc i) diff')))"
  by pat_completeness auto
termination
  by (relation "measures [\<lambda>(m, p, s, i, d). if p = [] then 1 else 0,
                          \<lambda>(m, p, s, i, d). length d - i]")
     (auto simp: prefixPaths_def nestedPrefix_def Let_def)

declare combineLoop.simps [simp del]

text \<open>The value the function returns or its throw, and the array it leaves behind.\<close>

definition combineRenameDiffs ::
  "(jsval \<Rightarrow> jsval \<Rightarrow> error + difference list) \<Rightarrow> difference list \<Rightarrow> seg list
     \<Rightarrow> error + difference list" where
  "combineRenameDiffs microdiff diff pathPrefix = fst (combineLoop microdiff pathPrefix False 0 diff)"

definition combineRenameDiffs_diff_after ::
  "(jsval \<Rightarrow> jsval \<Rightarrow> error + difference list) \<Rightarrow> difference list \<Rightarrow> seg list
     \<Rightarrow> difference list" where
  "combineRenameDiffs_diff_after microdiff diff pathPrefix =
     snd (combineLoop microdiff pathPrefix False 0 diff)"

text \<open>
  What the branch "only go one level deep" pushes for the rename candidate \<open>current\<close>,
  \<open>nxt\<close> in a call with the empty prefix: the diff of the two bodies, combined under the
  nested prefix when it is not empty; a throw when the diff library throws.
\<close>

definition innerCombined ::
  "(jsval \<Rightarrow> jsval \<Rightarrow> error + difference list) \<Rightarrow> difference \<Rightarrow> difference
     \<Rightarrow> error + difference list" where
  "innerCombined microdiff current nxt =
     (case microdiff (oldValue current) (val nxt) of
        Inl e \<Rightarrow> Inl e
      | Inr innerDiff \<Rightarrow>
          if innerDiff \<noteq> []
          then combineRenameDiffs microdiff innerDiff (nestedPrefix current nxt)
          else Inr [])"

section \<open>Shapes\<close>

text \<open>
  The shape descriptions are schemas of the \<^verbatim>\<open>zod\<close> library. The code tells them apart with
  \<^verbatim>\<open>instanceof\<close>: these are the classes it tests, and the primitives. A \<^verbatim>\<open>ZodObject\<close> carries
  its \<^verbatim>\<open>shape\<close> (the fields, in declaration order), a \<^verbatim>\<open>ZodArray\<close> its \<^verbatim>\<open>element\<close>, a
  \<^verbatim>\<open>ZodRecord\<close> its \<^verbatim>\<open>valueSchema\<close>, a union its \<^verbatim>\<open>options\<close> in declaration order (a
  discriminated union also the name of its discriminator), \<^verbatim>\<open>ZodDefault\<close> its inner type and
  the default value. \<open>NotASchema\<close> is a value that is no schema at all: \<^verbatim>\<open>shape[key]\<close> gives
  one for a key that the shape object inherits and does not have of its own.
\<close>

datatype zschema =
    ZodAny
  | ZodString
  | ZodNumber
  | ZodBoolean
  | ZodLiteral jsval
  | ZodObject "(string \<times> zschema) list"
  | ZodArray zschema
  | ZodRecord zschema
  | ZodUnion "zschema list"
  | ZodDiscriminatedUnion string "zschema list"
  | ZodOptional zschema
  | ZodDefault zschema jsval
  | NotASchema

text \<open>
  \<^verbatim>\<open>unwrapSchema\<close>: strips \<^verbatim>\<open>ZodOptional\<close> and \<^verbatim>\<open>ZodDefault\<close> until another schema is
  reached. Anything else, a value that is no schema included, is returned as it is.
\<close>

fun unwrapSchema :: "zschema \<Rightarrow> zschema" where
  "unwrapSchema (ZodOptional inner) = unwrapSchema inner"
| "unwrapSchema (ZodDefault inner d) = unwrapSchema inner"
| "unwrapSchema schema = schema"

text \<open>The wrappers that \<^verbatim>\<open>unwrapSchema\<close> strips.\<close>

fun is_wrapper :: "zschema \<Rightarrow> bool" where
  "is_wrapper (ZodOptional inner) = True"
| "is_wrapper (ZodDefault inner d) = True"
| "is_wrapper schema = False"

text \<open>
  \<^verbatim>\<open>typeof key === 'string' && key in schema.shape\<close>, and then \<^verbatim>\<open>schema.shape[key]\<close>. The
  shape is a plain object: the test holds for its own fields and also for the keys it
  inherits, where the value read is not a schema.
\<close>

definition shapeField :: "(string \<times> zschema) list \<Rightarrow> seg \<Rightarrow> zschema option" where
  "shapeField shape k =
     (case k of
        Key name \<Rightarrow>
          (case map_of shape name of
             Some fieldSchema \<Rightarrow> Some fieldSchema
           | None \<Rightarrow> if name \<in> set inheritedKeys then Some NotASchema else None)
      | Idx n \<Rightarrow> None
      | Undef \<Rightarrow> None)"

section \<open>traverseZodSchema\<close>

text \<open>
  One round of the loop body after the first unwrapping and the \<^verbatim>\<open>ZodAny\<close> test: the schema
  one segment further, or \<open>None\<close> where the code returns \<^verbatim>\<open>null\<close>. The branches are in the
  order of the source: an object with a string key that is in its shape; an array (a number
  gives the element, a string gives the field of an element that is an object with this
  field, anything else fails); a record; otherwise no such path.
\<close>

definition descend :: "zschema \<Rightarrow> seg \<Rightarrow> zschema option" where
  "descend currentSchema k =
     (case (case currentSchema of ZodObject shape \<Rightarrow> shapeField shape k | _ \<Rightarrow> None) of
        Some fieldSchema \<Rightarrow> Some fieldSchema
      | None \<Rightarrow>
          (case currentSchema of
             ZodArray element \<Rightarrow>
               if is_number k then Some element
               else if is_string k then
                 (case element of ZodObject shape \<Rightarrow> shapeField shape k | _ \<Rightarrow> None)
               else None
           | ZodRecord valueSchema \<Rightarrow> Some valueSchema
           | _ \<Rightarrow> None))"

text \<open>
  The loop over the path. With no segment left the current schema is returned as it is.
  Otherwise the schema is unwrapped; \<^verbatim>\<open>ZodAny\<close> is returned at once for any rest of the
  path; else the loop descends one segment, unwraps again and goes on.
\<close>

fun traverseZodSchema :: "zschema \<Rightarrow> seg list \<Rightarrow> zschema option" where
  "traverseZodSchema schema [] = Some schema"
| "traverseZodSchema schema (k # rest) =
     (let currentSchema = unwrapSchema schema
      in if currentSchema = ZodAny then Some currentSchema
         else case descend currentSchema k of
                None \<Rightarrow> None
              | Some nextSchema \<Rightarrow> traverseZodSchema (unwrapSchema nextSchema) rest)"

section \<open>narrowUnionSchema\<close>

text \<open>
  The test of one option: \<^verbatim>\<open>option instanceof z.ZodObject && key in option.shape &&
  option.shape[key] instanceof z.ZodLiteral && option.shape[key].value === value\<close>. The
  literal of a schema is a primitive value, so \<^verbatim>\<open>===\<close> is equality of values. (For a key
  that the shape only inherits, what is read is not a \<^verbatim>\<open>ZodLiteral\<close> and the test fails,
  as it does here.)
\<close>

definition optionMatches :: "string \<Rightarrow> jsval \<Rightarrow> zschema \<Rightarrow> bool" where
  "optionMatches k v opt =
     (case opt of
        ZodObject shape \<Rightarrow>
          (case map_of shape k of
             Some (ZodLiteral l) \<Rightarrow> l = v
           | _ \<Rightarrow> False)
      | _ \<Rightarrow> False)"

text \<open>The loop over \<^verbatim>\<open>_schema.options\<close>, which returns at the first option that matches.\<close>

fun firstOption :: "string \<Rightarrow> jsval \<Rightarrow> zschema list \<Rightarrow> zschema option" where
  "firstOption k v [] = None"
| "firstOption k v (opt # opts) =
     (if optionMatches k v opt then Some opt else firstOption k v opts)"

definition narrowUnionSchema :: "zschema \<Rightarrow> string \<Rightarrow> jsval \<Rightarrow> zschema option" where
  "narrowUnionSchema schema k v =
     (case unwrapSchema schema of
        ZodUnion opts \<Rightarrow> firstOption k v opts
      | ZodDiscriminatedUnion d opts \<Rightarrow> firstOption k v opts
      | _ \<Rightarrow> None)"

section \<open>parseDiff\<close>

text \<open>JavaScript truthiness of a value, as \<^verbatim>\<open>!x\<close> and \<^verbatim>\<open>if (x)\<close> test it.\<close>

fun truthy :: "jsval \<Rightarrow> bool" where
  "truthy JUndefined = False"
| "truthy JNull = False"
| "truthy (JBool b) = b"
| "truthy (JNum n) = (n \<noteq> 0)"
| "truthy (JStr s) = (s \<noteq> [])"
| "truthy (JArr xs) = True"
| "truthy (JObj kvs) = True"
| "truthy JFunction = True"

text \<open>Decimal digits of a number, for \<^verbatim>\<open>String(n)\<close>.\<close>

fun string_of_nat :: "nat \<Rightarrow> string" where
  "string_of_nat n =
     (if n < 10 then [''0123456789'' ! n]
      else string_of_nat (n div 10) @ [''0123456789'' ! (n mod 10)])"

text \<open>
  \<^verbatim>\<open>path.join('.')\<close>: a number is written in decimal, \<^verbatim>\<open>undefined\<close> as the empty string.
\<close>

fun seg_string :: "seg \<Rightarrow> string" where
  "seg_string (Key s) = s"
| "seg_string (Idx n) = string_of_nat n"
| "seg_string Undef = []"

fun joinPath :: "seg list \<Rightarrow> string" where
  "joinPath [] = []"
| "joinPath [k] = seg_string k"
| "joinPath (k # rest) = seg_string k @ ''.'' @ joinPath rest"

text \<open>
  Modelled from the spec: \<^verbatim>\<open>schemaModel(data, schema, false)\<close> of
  \<^verbatim>\<open>@scalar/oas-utils/helpers\<close> is not among the sources. The spec gives the shape provider
  a non-throwing "parse value against shape" primitive returning success with the value or
  failure; \<open>safeParse\<close> is that primitive on schemas (\<open>None\<close> is failure), a parameter of
  everything that validates. With \<^verbatim>\<open>throwError = false\<close> the helper returns the parsed
  value, and \<^verbatim>\<open>null\<close> on failure. It calls \<^verbatim>\<open>schema.safeParse\<close>: on a value that is not a
  schema there is no such method, and the call is a \<^verbatim>\<open>TypeError\<close>.
\<close>

definition schemaModel ::
  "(zschema \<Rightarrow> jsval \<Rightarrow> jsval option) \<Rightarrow> jsval \<Rightarrow> zschema \<Rightarrow> error + jsval" where
  "schemaModel safeParse data schema =
     (if schema = NotASchema then Inl TypeError
      else Inr (case safeParse schema data of None \<Rightarrow> JNull | Some v \<Rightarrow> v))"

text \<open>The result of \<^verbatim>\<open>parseDiff\<close>: \<^verbatim>\<open>{ path, pathMinusOne, value }\<close>.\<close>

record parsed =
  parsedPath :: string
  pathMinusOne :: string
  parsedValue :: jsval

text \<open>
  \<^verbatim>\<open>parseDiff\<close>: \<open>Inr None\<close> is the \<^verbatim>\<open>null\<close> it returns. The test \<^verbatim>\<open>if (!parsedSchema)\<close>
  passes for anything \<^verbatim>\<open>traverseZodSchema\<close> returned that is not \<^verbatim>\<open>null\<close>. The test
  \<^verbatim>\<open>if (!parsedValue) return null\<close> is a test of truthiness.
\<close>

definition parseDiff ::
  "(zschema \<Rightarrow> jsval \<Rightarrow> jsval option) \<Rightarrow> zschema \<Rightarrow> difference \<Rightarrow> error + parsed option" where
  "parseDiff safeParse schema diff =
     (case traverseZodSchema schema (path diff) of
        None \<Rightarrow> Inr None
      | Some parsedSchema \<Rightarrow>
          if type diff = REMOVE then
            Inr (Some \<lparr>parsedPath = joinPath (path diff),
                       pathMinusOne = joinPath (butlast (path diff)),
                       parsedValue = JUndefined\<rparr>)
          else
            andThen (schemaModel safeParse (val diff) parsedSchema) (\<lambda>v.
              if \<not> truthy v then Inr None
              else Inr (Some \<lparr>parsedPath = joinPath (path diff),
                               pathMinusOne = joinPath (butlast (path diff)),
                               parsedValue = v\<rparr>)))"

text \<open>
  "The path resolves to the shape \<open>s\<close>": \<^verbatim>\<open>traverseZodSchema\<close> returns \<open>s\<close>, and \<open>s\<close> is a
  schema, so that a value can be validated against it.
\<close>

definition resolvesTo :: "zschema \<Rightarrow> seg list \<Rightarrow> zschema \<Rightarrow> bool" where
  "resolvesTo schema p s = (traverseZodSchema schema p = Some s \<and> s \<noteq> NotASchema)"

section \<open>findResource\<close>

text \<open>
  \<^verbatim>\<open>resources[uid]\<close> on a table of entities, which is a plain object: the entity under the
  key, the inherited value for a key that the table only inherits, \<^verbatim>\<open>undefined\<close> for any
  other key that the table does not have.
\<close>

definition lookup :: "(string \<rightharpoonup> jsval) \<Rightarrow> string \<Rightarrow> jsval" where
  "lookup resources u =
     (case resources u of
        Some r \<Rightarrow> r
      | None \<Rightarrow> if u \<in> set inheritedKeys then JFunction else JUndefined)"

text \<open>
  \<^verbatim>\<open>findResource\<close>. The condition is a JavaScript function: it is called on whatever the
  table gives, \<^verbatim>\<open>undefined\<close> included, and it can throw. The result is what the table gave
  at the first key where the condition held, or \<^verbatim>\<open>null\<close>.
\<close>

fun findResource ::
  "string list \<Rightarrow> (string \<rightharpoonup> jsval) \<Rightarrow> (jsval \<Rightarrow> error + bool) \<Rightarrow> error + jsval" where
  "findResource [] resources condition = Inr JNull"
| "findResource (u # arr) resources condition =
     (let resource = lookup resources u
      in case condition resource of
           Inl e \<Rightarrow> Inl e
         | Inr True \<Rightarrow> Inr resource
         | Inr False \<Rightarrow> findResource arr resources condition)"

section \<open>The language primitives the builders use\<close>

text \<open>\<^verbatim>\<open>x === y\<close>: equality of primitive values; two objects, arrays or functions read from
  different places are different references.\<close>

fun is_primitive :: "jsval \<Rightarrow> bool" where
  "is_primitive (JArr xs) = False"
| "is_primitive (JObj kvs) = False"
| "is_primitive JFunction = False"
| "is_primitive v = True"

definition strictEq :: "jsval \<Rightarrow> jsval \<Rightarrow> bool" where
  "strictEq a b = (is_primitive a \<and> a = b)"

text \<open>\<^verbatim>\<open>x ?? y\<close> and \<^verbatim>\<open>x?.f\<close> test for \<^verbatim>\<open>undefined\<close> and \<^verbatim>\<open>null\<close>.\<close>

definition nullish :: "jsval \<Rightarrow> bool" where
  "nullish v = (v = JUndefined \<or> v = JNull)"

text \<open>
  \<^verbatim>\<open>x.f\<close> for a field \<^verbatim>\<open>f\<close> of an entity: a \<^verbatim>\<open>TypeError\<close> on \<^verbatim>\<open>undefined\<close> and \<^verbatim>\<open>null\<close>;
  otherwise the field of an object, and \<^verbatim>\<open>undefined\<close> when the object has no such field or
  the value is not an object with fields (the fields read this way are the entity fields
  \<^verbatim>\<open>path\<close>, \<^verbatim>\<open>method\<close>, \<^verbatim>\<open>uid\<close>, \<^verbatim>\<open>type\<close>, \<^verbatim>\<open>flow\<close>, \<^verbatim>\<open>scopes\<close>, \<^verbatim>\<open>nameKey\<close>, \<^verbatim>\<open>servers\<close>,
  \<^verbatim>\<open>security\<close> and \<^verbatim>\<open>parameters\<close>; none of them is inherited or built in).
\<close>

definition field :: "jsval \<Rightarrow> string \<Rightarrow> jsval" where
  "field v f =
     (case v of
        JObj kvs \<Rightarrow> (case map_of kvs f of None \<Rightarrow> JUndefined | Some x \<Rightarrow> x)
      | _ \<Rightarrow> JUndefined)"

definition getProp :: "jsval \<Rightarrow> string \<Rightarrow> error + jsval" where
  "getProp v f = (if nullish v then Inl TypeError else Inr (field v f))"


text \<open>
  The own enumerable properties of a value that is not \<^verbatim>\<open>undefined\<close> or \<^verbatim>\<open>null\<close>, as
  \<^verbatim>\<open>Object.entries\<close>, \<^verbatim>\<open>Object.keys\<close> and the object spread read them: the fields of an
  object, the indexed elements of an array, the indexed characters of a string, nothing
  for a number, a boolean or a function.
\<close>

definition indexed :: "jsval list \<Rightarrow> (string \<times> jsval) list" where
  "indexed xs = zip (map string_of_nat [0 ..< length xs]) xs"

fun ownEntries :: "jsval \<Rightarrow> (string \<times> jsval) list" where
  "ownEntries (JObj kvs) = kvs"
| "ownEntries (JArr xs) = indexed xs"
| "ownEntries (JStr s) = indexed (map (\<lambda>c. JStr [c]) s)"
| "ownEntries v = []"

text \<open>\<^verbatim>\<open>Object.entries(v)\<close> and \<^verbatim>\<open>Object.keys(v)\<close> throw on \<^verbatim>\<open>undefined\<close> and \<^verbatim>\<open>null\<close>.\<close>

definition objectEntries :: "jsval \<Rightarrow> error + (string \<times> jsval) list" where
  "objectEntries v = (if nullish v then Inl TypeError else Inr (ownEntries v))"

text \<open>\<^verbatim>\<open>[...v]\<close>: arrays and strings are iterable, nothing else among the values is.\<close>

fun iterate :: "jsval \<Rightarrow> error + jsval list" where
  "iterate (JArr xs) = Inr xs"
| "iterate (JStr s) = Inr (map (\<lambda>c. JStr [c]) s)"
| "iterate v = Inl TypeError"

text \<open>\<^verbatim>\<open>v.map(f)\<close> and \<^verbatim>\<open>v.filter(f)\<close> exist on arrays only.\<close>

fun elements :: "jsval \<Rightarrow> error + jsval list" where
  "elements (JArr xs) = Inr xs"
| "elements v = Inl TypeError"

text \<open>
  The integer-like keys, which an object enumerates first and in ascending order: the
  decimal strings of the numbers below \<open>2^32 - 1\<close>, written without a sign or a leading
  zero. \<open>digitsLess\<close> compares two strings of digits of the same length as numbers.
\<close>

fun digitsValue :: "nat \<Rightarrow> string \<Rightarrow> nat option" where
  "digitsValue acc [] = Some acc"
| "digitsValue acc (ch # cs) =
     (if ch \<in> set ''0123456789''
      then digitsValue (10 * acc + (of_char ch - 48)) cs
      else None)"

fun digitsLess :: "string \<Rightarrow> string \<Rightarrow> bool" where
  "digitsLess (a # as) (b # bs) =
     ((of_char a :: nat) < of_char b \<or> (a = b \<and> digitsLess as bs))"
| "digitsLess as bs = False"

definition indexKey :: "string \<Rightarrow> nat option" where
  "indexKey k =
     (if k \<noteq> [] \<and> (length k = 1 \<or> hd k \<noteq> CHR ''0'')
         \<and> (length k < 10 \<or> (length k = 10 \<and> digitsLess k ''4294967295''))
      then digitsValue 0 k
      else None)"

text \<open>
  A new key takes its place in the enumeration order: an integer-like key before the first
  key that is not integer-like or is a larger integer, any other key at the end.
\<close>

fun insertKey :: "string \<Rightarrow> jsval \<Rightarrow> (string \<times> jsval) list \<Rightarrow> (string \<times> jsval) list" where
  "insertKey k v [] = [(k, v)]"
| "insertKey k v ((k', v') # kvs) =
     (case indexKey k of
        None \<Rightarrow> (k', v') # insertKey k v kvs
      | Some n \<Rightarrow>
          (case indexKey k' of
             None \<Rightarrow> (k, v) # (k', v') # kvs
           | Some m \<Rightarrow> if m < n then (k', v') # insertKey k v kvs
                       else (k, v) # (k', v') # kvs))"

text \<open>
  Setting the own property \<open>k\<close> of an object, as an object literal or a spread followed by
  more properties does: an existing key keeps its place and gets the new value, a new key
  is inserted in the enumeration order.
\<close>

fun replaceKey :: "string \<Rightarrow> jsval \<Rightarrow> (string \<times> jsval) list \<Rightarrow> (string \<times> jsval) list" where
  "replaceKey k v [] = []"
| "replaceKey k v ((k', v') # kvs) =
     (if k' = k then (k, v) # kvs else (k', v') # replaceKey k v kvs)"

definition setProp :: "(string \<times> jsval) list \<Rightarrow> string \<Rightarrow> jsval \<Rightarrow> (string \<times> jsval) list" where
  "setProp kvs k v =
     (if k \<in> set (map fst kvs) then replaceKey k v kvs else insertKey k v kvs)"


text \<open>\<^verbatim>\<open>delete obj[k]\<close>, and the rest of a destructuring that names \<open>k\<close>.\<close>

definition deleteProp :: "(string \<times> jsval) list \<Rightarrow> string \<Rightarrow> (string \<times> jsval) list" where
  "deleteProp kvs k = filter (\<lambda>(k', v). k' \<noteq> k) kvs"

text \<open>A loop over a list whose body can throw: \<^verbatim>\<open>xs.map(f)\<close> and \<^verbatim>\<open>xs.filter(f)\<close>.\<close>

fun mapE :: "('a \<Rightarrow> error + 'b) \<Rightarrow> 'a list \<Rightarrow> error + 'b list" where
  "mapE f [] = Inr []"
| "mapE f (x # xs) = andThen (f x) (\<lambda>y. andThen (mapE f xs) (\<lambda>ys. Inr (y # ys)))"

fun filterE :: "('a \<Rightarrow> error + bool) \<Rightarrow> 'a list \<Rightarrow> error + 'a list" where
  "filterE f [] = Inr []"
| "filterE f (x # xs) =
     andThen (f x) (\<lambda>b. andThen (filterE f xs) (\<lambda>ys. Inr (if b then x # ys else ys)))"

text \<open>
  The throwing \<^verbatim>\<open>schema.parse(v)\<close> of the shape provider, and \<^verbatim>\<open>schema.array()\<close>. On a value
  that is not a schema neither method exists.
\<close>

definition zodParse :: "(zschema \<Rightarrow> jsval \<Rightarrow> jsval option) \<Rightarrow> zschema \<Rightarrow> jsval \<Rightarrow> error + jsval" where
  "zodParse sp schema v =
     (if schema = NotASchema then Inl TypeError
      else case sp schema v of None \<Rightarrow> Inl ZodError | Some x \<Rightarrow> Inr x)"

definition arrayOf :: "zschema \<Rightarrow> zschema" where
  "arrayOf schema = (if schema = NotASchema then NotASchema else ZodArray schema)"

section \<open>Entities, commands and the environment of the builders\<close>

text \<open>
  A collection holds the uids of the entities it owns, as lists of strings; \<open>json\<close> is the
  collection as a value, which \<^verbatim>\<open>getNestedValue\<close> reads. The other entities (requests,
  servers, tags, security schemes) are values, in tables from uid to entity.
\<close>

record collection =
  uid :: string
  requests :: "string list"
  servers :: "string list"
  tags :: "string list"
  securitySchemes :: "string list"
  json :: jsval

text \<open>A mutation command \<^verbatim>\<open>{ method, args }\<close>.\<close>

datatype payload = Payload string "jsval list"

text \<open>
  What the module imports and the sources do not contain: the non-throwing parse of the
  shape provider, the shapes of the entities, \<^verbatim>\<open>getNestedValue\<close> of
  \<^verbatim>\<open>@scalar/object-utils/nested\<close> and \<^verbatim>\<open>isHTTPMethod\<close>. They are parameters, collected in
  one record.
\<close>

record env =
  safeParse :: "zschema \<Rightarrow> jsval \<Rightarrow> jsval option"
  collectionSchema :: zschema
  requestSchema :: zschema
  serverSchema :: zschema
  tagSchema :: zschema
  securitySchemeSchema :: zschema
  oasOauthFlowSchema :: zschema
  getNestedValue :: "jsval \<Rightarrow> string \<Rightarrow> jsval"
  isHTTPMethod :: "jsval \<Rightarrow> bool"

text \<open>
  \<^verbatim>\<open>list[index]\<close> on a list of uids, with a path segment as index: the element at a number
  within the list, also when the number is written as a string, and \<^verbatim>\<open>undefined\<close>
  otherwise. The diff library writes the position in an array as a number, and there the
  source casts the segment to a number; the names that an array has built in (\<^verbatim>\<open>length\<close>
  and its methods) are no uids and are not modelled.
\<close>

definition uidAt :: "string list \<Rightarrow> seg \<Rightarrow> string option" where
  "uidAt xs k =
     (case k of
        Idx n \<Rightarrow> if n < length xs then Some (xs ! n) else None
      | Key s \<Rightarrow>
          (case indexKey s of
             Some n \<Rightarrow> if n < length xs then Some (xs ! n) else None
           | None \<Rightarrow> None)
      | Undef \<Rightarrow> None)"

text \<open>The uid read this way, as a value and as a key of a table.\<close>

definition uidValue :: "string option \<Rightarrow> jsval" where
  "uidValue u = (case u of None \<Rightarrow> JUndefined | Some x \<Rightarrow> JStr x)"

definition uidKey :: "string option \<Rightarrow> string" where
  "uidKey u = (case u of None \<Rightarrow> ''undefined'' | Some x \<Rightarrow> x)"

section \<open>diffToCollectionPayload\<close>


section \<open>diffToRequestPayload\<close>

text \<open>The condition \<^verbatim>\<open>(r) => r.path === path && r.method === method\<close>.\<close>

definition requestAt :: "seg \<Rightarrow> seg \<Rightarrow> jsval \<Rightarrow> error + bool" where
  "requestAt p m r =
     andThen (getProp r ''path'') (\<lambda>rp.
       if strictEq rp (seg_value p)
       then andThen (getProp r ''method'') (\<lambda>rm. Inr (strictEq rm (seg_value m)))
       else Inr False)"

text \<open>
  \<^verbatim>\<open>operationSecurity?.length\<close> as a condition, and the map over the security requirements:
  an entry with keys is reduced to its first key, the empty object is kept.
\<close>

fun hasLength :: "jsval \<Rightarrow> bool" where
  "hasLength (JArr xs) = (xs \<noteq> [])"
| "hasLength (JStr s) = (s \<noteq> [])"
| "hasLength (JObj kvs) = (case map_of kvs ''length'' of None \<Rightarrow> False | Some l \<Rightarrow> truthy l)"
| "hasLength v = False"

definition securityEntry :: "jsval \<Rightarrow> error + jsval" where
  "securityEntry s =
     andThen (objectEntries s) (\<lambda>entries.
       case entries of [] \<Rightarrow> Inr s | (k, v) # _ \<Rightarrow> Inr (JObj [(k, v)]))"

text \<open>
  The branch \<^verbatim>\<open>diff.type === 'CREATE'\<close>, a new operation, up to the assembled
  \<^verbatim>\<open>requestPayload\<close>. The first line destructures the first entry of
  \<^verbatim>\<open>Object.entries(diff.value)\<close>, which throws when there is none. The servers of the
  operation go through the throwing \<^verbatim>\<open>serverSchema.array().parse\<close>.
\<close>

definition requestPayloadOf :: "env \<Rightarrow> difference \<Rightarrow> error + (string \<times> jsval) list" where
  "requestPayloadOf e diff =
     (let p = at (path diff) 1; method = at (path diff) 2
      in andThen (objectEntries (val diff)) (\<lambda>entries.
           case entries of
             [] \<Rightarrow> Inl TypeError
           | (m0, operation0) # _ \<Rightarrow>
               (let operation = (if seg_truthy method then val diff else operation0);
                    newMethod = (if seg_truthy method then seg_value method else JStr m0)
                in andThen (getProp operation ''servers'') (\<lambda>sv.
                   andThen (zodParse (safeParse e) (arrayOf (serverSchema e))
                              (if nullish sv then JArr [] else sv)) (\<lambda>operationServers.
                   andThen (getProp operation ''security'') (\<lambda>operationSecurity.
                   andThen (getProp operation ''parameters'') (\<lambda>ps.
                   andThen (elements operationServers) (\<lambda>svs.
                   andThen (mapE (\<lambda>s. getProp s ''uid'') svs) (\<lambda>serverUids.
                   andThen (if hasLength operationSecurity
                            then andThen (elements operationSecurity) (\<lambda>ss.
                                 andThen (mapE securityEntry ss) (\<lambda>xs. Inr (Some (JArr xs))))
                            else Inr None) (\<lambda>security.
                   (let fields0 = deleteProp (ownEntries operation) ''security'';
                        fields1 = setProp fields0 ''method''
                                    (if isHTTPMethod e newMethod then newMethod else JStr ''get'');
                        fields2 = setProp fields1 ''path'' (seg_value p);
                        fields3 = setProp fields2 ''parameters''
                                    (if nullish ps then JArr [] else ps);
                        fields4 = setProp fields3 ''servers'' (JArr serverUids)
                    in Inr (case security of None \<Rightarrow> fields4
                            | Some x \<Rightarrow> setProp fields4 ''security'' x))))))))))))"

text \<open>
  The assembled payload is parsed without throwing; a request that parses is added,
  otherwise the function falls through to its last line and returns no command.
\<close>

definition createRequest :: "env \<Rightarrow> difference \<Rightarrow> collection \<Rightarrow> error + payload list" where
  "createRequest e diff c =
     andThen (requestPayloadOf e diff) (\<lambda>requestPayload.
     andThen (schemaModel (safeParse e) (JObj requestPayload) (requestSchema e)) (\<lambda>request.
       Inr (if truthy request then [Payload ''add'' [request, JStr (uid c)]] else [])))"

text \<open>The result is the array of commands the function returns.\<close>

definition diffToRequestPayload ::
  "env \<Rightarrow> difference \<Rightarrow> collection \<Rightarrow> (string \<rightharpoonup> jsval) \<Rightarrow> error + payload list" where
  "diffToRequestPayload e diff c requestTable =
     (let p = at (path diff) 1; method = at (path diff) 2; keys = drop 3 (path diff)
      in
        if p = Key ''path'' \<and> type diff = CHANGE then
          andThen (filterE (\<lambda>u. andThen (getProp (lookup requestTable u) ''path'')
                                   (\<lambda>rp. Inr (strictEq rp (oldValue diff))))
                     (requests c))
            (\<lambda>us. Inr (map (\<lambda>u. Payload ''edit'' [JStr u, JStr ''path'', val diff]) us))
        else if method = Key ''method'' \<and> type diff = CHANGE then
          andThen (filterE (\<lambda>u. andThen (getProp (lookup requestTable u) ''method'') (\<lambda>rm.
                                   if strictEq rm (oldValue diff)
                                   then andThen (getProp (lookup requestTable u) ''path'')
                                          (\<lambda>rp. Inr (strictEq rp (seg_value p)))
                                   else Inr False))
                     (requests c))
            (\<lambda>us. Inr (map (\<lambda>u. Payload ''edit'' [JStr u, JStr ''method'', val diff]) us))
        else if type diff \<noteq> CHANGE \<and> is_number (at_last keys) then
          andThen (findResource (requests c) requestTable (requestAt p method)) (\<lambda>request.
          andThen (parseDiff (safeParse e) (requestSchema e)
                     (diff\<lparr>path := drop 3 (path diff)\<rparr>)) (\<lambda>parsedDiff.
            case parsedDiff of
              None \<Rightarrow> Inr []
            | Some pd \<Rightarrow>
                if \<not> truthy request then Inr []
                else
                  andThen (iterate (getNestedValue e request (pathMinusOne pd))) (\<lambda>oldValue.
                  andThen (getProp request ''uid'') (\<lambda>u.
                    Inr [Payload ''edit'' [u, JStr (pathMinusOne pd),
                           JArr (if type diff = CREATE then oldValue @ [parsedValue pd]
                                 else butlast oldValue)]]))))
        else if type diff = CREATE then createRequest e diff c
        else if type diff = REMOVE then
          andThen (findResource (requests c) requestTable (requestAt p method)) (\<lambda>request.
            Inr (if truthy request then [Payload ''delete'' [request, JStr (uid c)]] else []))
        else
          andThen (findResource (requests c) requestTable (requestAt p method)) (\<lambda>request.
          andThen (parseDiff (safeParse e) (requestSchema e) (diff\<lparr>path := keys\<rparr>))
            (\<lambda>parsedDiff.
              case parsedDiff of
                None \<Rightarrow> Inr []
              | Some pd \<Rightarrow>
                  if \<not> truthy request then Inr []
                  else andThen (getProp request ''uid'') (\<lambda>u.
                         Inr [Payload ''edit'' [u, JStr (parsedPath pd), parsedValue pd]]))))"

section \<open>diffToServerPayload and diffToTagPayload\<close>

text \<open>
  The result is one command, or \<^verbatim>\<open>null\<close>. The only throw in these two builders is the
  parse against a value that is not a schema.
\<close>

definition diffToServerPayload ::
  "env \<Rightarrow> difference \<Rightarrow> collection \<Rightarrow> (string \<rightharpoonup> jsval) \<Rightarrow> error + payload option" where
  "diffToServerPayload e diff c serverTable =
     (let index = at (path diff) 1; keys = drop 2 (path diff)
      in
        if keys \<noteq> [] then
          (let serverUid = uidAt (servers c) index;
               server = lookup serverTable (uidKey serverUid)
           in andThen (parseDiff (safeParse e) (serverSchema e) (diff\<lparr>path := keys\<rparr>))
                (\<lambda>parsedDiff.
                  case parsedDiff of
                    None \<Rightarrow> Inr None
                  | Some pd \<Rightarrow>
                      if \<not> truthy server then Inr None
                      else
                        (let removeVariables =
                               (type diff = REMOVE \<and> at_last keys = Key ''variables'');
                             v = (if removeVariables then JObj [] else parsedValue pd)
                         in Inr (Some (Payload ''edit''
                              [uidValue serverUid, JStr (parsedPath pd), v])))))
        else if type diff = REMOVE \<and> truthy (uidValue (uidAt (servers c) index)) then
          Inr (Some (Payload ''delete'' [uidValue (uidAt (servers c) index), JStr (uid c)]))
        else if type diff = CREATE then
          andThen (schemaModel (safeParse e) (val diff) (serverSchema e)) (\<lambda>server.
            Inr (if truthy server then Some (Payload ''add'' [server, JStr (uid c)]) else None))
        else Inr None)"


section \<open>diffToSecuritySchemePayload\<close>






section \<open>Instances of the external parts\<close>

text \<open>
  The general theorems below hold for every \<open>microdiff\<close>, every parse primitive and every
  shape. To run the functions on concrete inputs, the external parts need instances. These
  follow the libraries on data (values without \<open>JFunction\<close>).
\<close>

text \<open>
  \<^verbatim>\<open>key in v\<close> and \<^verbatim>\<open>v[key]\<close>, as the diff library uses them on the values it compares.
  The operator \<^verbatim>\<open>in\<close> throws a \<^verbatim>\<open>TypeError\<close> on a value that is not an object: on
  \<^verbatim>\<open>undefined\<close>, \<^verbatim>\<open>null\<close>, a boolean, a number and a string. An object has its own keys and
  the inherited ones; an array has its indices, \<^verbatim>\<open>length\<close> and the inherited keys (the
  method names of arrays are left out: no key of the examples is one).
\<close>

definition hasKey :: "jsval \<Rightarrow> string \<Rightarrow> error + bool" where
  "hasKey v k =
     (case v of
        JObj kvs \<Rightarrow> Inr (map_of kvs k \<noteq> None \<or> k \<in> set inheritedKeys)
      | JArr xs \<Rightarrow>
          Inr ((case indexKey k of Some n \<Rightarrow> n < length xs | None \<Rightarrow> False)
               \<or> k = ''length'' \<or> k \<in> set inheritedKeys)
      | JFunction \<Rightarrow> Inr (k \<in> set inheritedKeys)
      | _ \<Rightarrow> Inl TypeError)"

definition readKey :: "jsval \<Rightarrow> string \<Rightarrow> jsval" where
  "readKey v k =
     (case v of
        JObj kvs \<Rightarrow>
          (case map_of kvs k of
             Some x \<Rightarrow> x
           | None \<Rightarrow> if k \<in> set inheritedKeys then JFunction else JUndefined)
      | JArr xs \<Rightarrow>
          (case indexKey k of
             Some n \<Rightarrow> if n < length xs then xs ! n else JUndefined
           | None \<Rightarrow> if k = ''length'' then JNum (int (length xs))
                      else if k \<in> set inheritedKeys then JFunction else JUndefined)
      | _ \<Rightarrow> JUndefined)"

text \<open>
  The library recurses into two values that are both objects or both arrays
  (\<^verbatim>\<open>typeof\<close> both \<^verbatim>\<open>'object'\<close>, both truthy, \<^verbatim>\<open>Array.isArray\<close> equal).
\<close>

fun compatible :: "jsval \<Rightarrow> jsval \<Rightarrow> bool" where
  "compatible (JObj a) (JObj b) = True"
| "compatible (JArr a) (JArr b) = True"
| "compatible a b = False"

text \<open>
  One round of the first loop of \<^verbatim>\<open>microdiff\<close>, for the key \<open>k\<close> of the old value, which
  holds \<open>objKey\<close> there: a REMOVE when the new value has no such key; the entries of the recursive
  diff \<open>inner\<close>, each with the key put in front of its path, when the two values are
  compatible; a CHANGE when they are not and differ (\<^verbatim>\<open>!==\<close>); nothing otherwise.
\<close>

definition compareKey ::
  "seg \<Rightarrow> string \<Rightarrow> jsval \<Rightarrow> jsval \<Rightarrow> error + difference list \<Rightarrow> error + difference list" where
  "compareKey p k objKey newObj inner =
     (case hasKey newObj k of
        Inl e \<Rightarrow> Inl e
      | Inr present \<Rightarrow>
          if \<not> present then
            Inr [\<lparr>type = REMOVE, path = [p], val = JUndefined, oldValue = objKey\<rparr>]
          else if compatible objKey (readKey newObj k) then
            (case inner of Inl e \<Rightarrow> Inl e | Inr ds \<Rightarrow> Inr (map (prefixed [p]) ds))
          else if \<not> strictEq objKey (readKey newObj k) then
            Inr [\<lparr>type = CHANGE, path = [p], val = readKey newObj k, oldValue = objKey\<rparr>]
          else Inr [])"

text \<open>
  The second loop: a CREATE for every key of the new value that the old value does not
  have. The key of an array is written as a number.
\<close>

definition created :: "jsval \<Rightarrow> jsval \<Rightarrow> error + difference list" where
  "created obj newObj =
     andThen (filterE (\<lambda>(k, v). andThen (hasKey obj k) (\<lambda>present. Inr (\<not> present)))
                (ownEntries newObj))
       (\<lambda>kvs. Inr (map (\<lambda>(k, v).
          \<lparr>type = CREATE,
           path = [case newObj of
                     JArr xs \<Rightarrow> (case indexKey k of Some n \<Rightarrow> Idx n | None \<Rightarrow> Undef)
                   | _ \<Rightarrow> Key k],
           val = v, oldValue = JUndefined\<rparr>) kvs))"

text \<open>
  \<^verbatim>\<open>microdiff(obj, newObj)\<close>: the first loop over the keys of the old value (the fields of
  an object, the indices of an array, the indices of the characters of a string; no key for
  any other value), then the second loop. Diffing against a new value that is not an
  object throws as soon as the old value has a key; two equal non-empty strings are such a
  pair.
\<close>

fun microdiff_model :: "jsval \<Rightarrow> jsval \<Rightarrow> error + difference list"
  and diffEntries :: "(string \<times> jsval) list \<Rightarrow> jsval \<Rightarrow> error + difference list"
  and diffElems :: "nat \<Rightarrow> jsval list \<Rightarrow> jsval \<Rightarrow> error + difference list" where
  "microdiff_model (JObj a) newObj = appendE (diffEntries a newObj) (created (JObj a) newObj)"
| "microdiff_model (JArr a) newObj = appendE (diffElems 0 a newObj) (created (JArr a) newObj)"
| "microdiff_model (JStr s) newObj =
     appendE
       (foldr (\<lambda>(k, ch). appendE (compareKey (Key k) k ch newObj (Inr [])))
          (ownEntries (JStr s)) (Inr []))
       (created (JStr s) newObj)"
| "microdiff_model obj newObj = created obj newObj"
| "diffEntries [] newObj = Inr []"
| "diffEntries ((k, v) # rest) newObj =
     appendE (compareKey (Key k) k v newObj (microdiff_model v (readKey newObj k)))
       (diffEntries rest newObj)"
| "diffElems i [] newObj = Inr []"
| "diffElems i (v # rest) newObj =
     appendE
       (compareKey (Idx i) (string_of_nat i) v newObj
          (microdiff_model v (readKey newObj (string_of_nat i))))
       (diffElems (Suc i) rest newObj)"

text \<open>
  A non-throwing parse in the manner of \<^verbatim>\<open>schema.safeParse\<close>: an object schema parses its
  own fields and drops the others, a union takes its first option that parses, an optional
  accepts \<^verbatim>\<open>undefined\<close>, a default replaces it. (The code never parses against a value
  that is not a schema.)
\<close>

fun allSome :: "'a option list \<Rightarrow> 'a list option" where
  "allSome [] = Some []"
| "allSome (None # xs) = None"
| "allSome (Some x # xs) = (case allSome xs of None \<Rightarrow> None | Some ys \<Rightarrow> Some (x # ys))"

fun firstSome :: "'a option list \<Rightarrow> 'a option" where
  "firstSome [] = None"
| "firstSome (None # xs) = firstSome xs"
| "firstSome (Some x # xs) = Some x"

fun zodSafeParse :: "zschema \<Rightarrow> jsval \<Rightarrow> jsval option" where
  "zodSafeParse ZodAny v = Some v"
| "zodSafeParse ZodString v = (case v of JStr s \<Rightarrow> Some v | _ \<Rightarrow> None)"
| "zodSafeParse ZodNumber v = (case v of JNum n \<Rightarrow> Some v | _ \<Rightarrow> None)"
| "zodSafeParse ZodBoolean v = (case v of JBool b \<Rightarrow> Some v | _ \<Rightarrow> None)"
| "zodSafeParse (ZodLiteral l) v = (if v = l then Some v else None)"
| "zodSafeParse (ZodObject shape) v =
     (case v of
        JObj kvs \<Rightarrow>
          map_option (\<lambda>fs. JObj (filter (\<lambda>(k, x). x \<noteq> JUndefined) fs))
            (allSome (map (\<lambda>(k, s). map_option (Pair k) (zodSafeParse s (field v k))) shape))
      | _ \<Rightarrow> None)"
| "zodSafeParse (ZodArray element) v =
     (case v of
        JArr xs \<Rightarrow> map_option JArr (allSome (map (zodSafeParse element) xs))
      | _ \<Rightarrow> None)"
| "zodSafeParse (ZodRecord valueSchema) v =
     (case v of
        JObj kvs \<Rightarrow> map_option JObj
          (allSome (map (\<lambda>(k, x). map_option (Pair k) (zodSafeParse valueSchema x)) kvs))
      | _ \<Rightarrow> None)"
| "zodSafeParse (ZodUnion opts) v = firstSome (map (\<lambda>s. zodSafeParse s v) opts)"
| "zodSafeParse (ZodDiscriminatedUnion d opts) v = firstSome (map (\<lambda>s. zodSafeParse s v) opts)"
| "zodSafeParse (ZodOptional inner) v = (if v = JUndefined then Some v else zodSafeParse inner v)"
| "zodSafeParse (ZodDefault inner d) v = (if v = JUndefined then Some d else zodSafeParse inner v)"
| "zodSafeParse NotASchema v = None"

text \<open>
  \<^verbatim>\<open>getNestedValue(obj, path)\<close>: the path is split at the dots and followed from \<open>obj\<close>,
  \<^verbatim>\<open>undefined\<close> as soon as a step has nothing to read.
\<close>

fun splitDots :: "string \<Rightarrow> string list" where
  "splitDots [] = [Nil]"
| "splitDots (ch # cs) =
     (if ch = CHR ''.'' then [] # splitDots cs
      else case splitDots cs of [] \<Rightarrow> [ch # Nil] | w # ws \<Rightarrow> (ch # w) # ws)"

definition nestedValue :: "jsval \<Rightarrow> string \<Rightarrow> jsval" where
  "nestedValue obj p =
     foldl (\<lambda>acc k. if nullish acc then JUndefined
                     else case map_of (ownEntries acc) k of None \<Rightarrow> JUndefined | Some x \<Rightarrow> x)
       obj (splitDots p)"

text \<open>Small shapes with the fields the examples use.\<close>

definition exampleServerSchema :: zschema where
  "exampleServerSchema = ZodObject
     [(''uid'', ZodDefault ZodString (JStr ''server-uid'')),
      (''url'', ZodString),
      (''description'', ZodOptional ZodString),
      (''variables'', ZodOptional (ZodRecord (ZodObject [(''default'', ZodString)])))]"

definition exampleTagSchema :: zschema where
  "exampleTagSchema = ZodObject
     [(''uid'', ZodDefault ZodString (JStr ''tag-uid'')),
      (''name'', ZodString),
      (''description'', ZodOptional ZodString)]"

definition exampleRequestSchema :: zschema where
  "exampleRequestSchema = ZodObject
     [(''uid'', ZodDefault ZodString (JStr ''request-uid'')),
      (''path'', ZodString),
      (''method'', ZodDefault
         (ZodUnion (map (\<lambda>m. ZodLiteral (JStr m))
            [''get'', ''put'', ''post'', ''delete'', ''options'', ''head'', ''patch'',
             ''trace'']))
         (JStr ''get'')),
      (''summary'', ZodOptional ZodString),
      (''deprecated'', ZodOptional ZodBoolean),
      (''tags'', ZodOptional (ZodArray ZodString)),
      (''parameters'', ZodDefault (ZodArray ZodAny) (JArr [])),
      (''servers'', ZodDefault (ZodArray ZodString) (JArr []))]"

definition exampleCollectionSchema :: zschema where
  "exampleCollectionSchema = ZodObject
     [(''uid'', ZodString),
      (''info'', ZodOptional (ZodObject [(''title'', ZodString), (''version'', ZodOptional ZodString)])),
      (''security'', ZodDefault (ZodArray (ZodRecord (ZodArray ZodString))) (JArr []))]"

definition exampleFlowSchema :: zschema where
  "exampleFlowSchema = ZodDiscriminatedUnion ''type''
     [ZodObject [(''type'', ZodLiteral (JStr ''implicit'')),
                 (''authorizationUrl'', ZodString),
                 (''scopes'', ZodRecord ZodString)],
      ZodObject [(''type'', ZodLiteral (JStr ''password'')),
                 (''tokenUrl'', ZodString),
                 (''scopes'', ZodRecord ZodString)]]"

definition exampleSecuritySchemeSchema :: zschema where
  "exampleSecuritySchemeSchema = ZodUnion
     [ZodObject [(''uid'', ZodDefault ZodString (JStr ''scheme-uid'')),
                 (''type'', ZodLiteral (JStr ''apiKey'')),
                 (''nameKey'', ZodOptional ZodString),
                 (''name'', ZodString),
                 (''in'', ZodString)],
      ZodObject [(''uid'', ZodDefault ZodString (JStr ''scheme-uid'')),
                 (''type'', ZodLiteral (JStr ''oauth2'')),
                 (''nameKey'', ZodOptional ZodString),
                 (''flow'', exampleFlowSchema)]]"

definition exampleEnv :: env where
  "exampleEnv =
     \<lparr>safeParse = zodSafeParse,
      collectionSchema = exampleCollectionSchema,
      requestSchema = exampleRequestSchema,
      serverSchema = exampleServerSchema,
      tagSchema = exampleTagSchema,
      securitySchemeSchema = exampleSecuritySchemeSchema,
      oasOauthFlowSchema = exampleFlowSchema,
      getNestedValue = nestedValue,
      isHTTPMethod = (\<lambda>m. m \<in> set (map JStr
        [''get'', ''put'', ''post'', ''delete'', ''options'', ''head'', ''patch'', ''trace'']))\<rparr>"

definition exampleCollection :: collection where
  "exampleCollection =
     \<lparr>uid = ''col'',
      requests = [''req1''],
      servers = [''srv0'', ''srv1''],
      tags = [''tag0''],
      securitySchemes = [''sec1''],
      json = JObj [(''uid'', JStr ''col''),
                   (''info'', JObj [(''title'', JStr ''Pets'')]),
                   (''security'', JArr [])]\<rparr>"

definition exampleRequests :: "string \<rightharpoonup> jsval" where
  "exampleRequests =
     [''req1'' \<mapsto> JObj [(''uid'', JStr ''req1''), (''path'', JStr ''/pets''),
                         (''method'', JStr ''get''), (''tags'', JArr [JStr ''pets''])]]"

definition exampleServers :: "string \<rightharpoonup> jsval" where
  "exampleServers =
     [''srv0'' \<mapsto> JObj [(''uid'', JStr ''srv0''), (''url'', JStr ''https://a.example'')],
      ''srv1'' \<mapsto> JObj [(''uid'', JStr ''srv1''), (''url'', JStr ''https://b.example''),
                         (''variables'', JObj [(''v'', JObj [(''default'', JStr ''1'')])])]]"



section \<open>Properties of combineRenameDiffs\<close>

text \<open>
  A call with the empty prefix never assigns to a path, and its loop from index \<open>i\<close> sees
  only the entries from \<open>i\<close> on. So the top-level call has a description by recursion on the
  list: the first entry alone, or the first two when they are a rename candidate. A throw
  of the diff library ends the call; a nested call never calls the library and never throws.
\<close>

lemma appendE_Inr_Nil [simp]: "appendE (Inr []) b = b" "appendE a (Inr []) = a"
  by (simp_all add: appendE_def split: sum.split)

lemma appendE_Inl [simp]: "appendE (Inl e) b = Inl e"
  by (simp add: appendE_def)

lemma appendE_Inr_Inr [simp]: "appendE (Inr xs) (Inr ys) = Inr (xs @ ys)"
  by (simp add: appendE_def)

lemma appendE_assoc: "appendE (appendE a b) c = appendE a (appendE b c)"
  by (simp add: appendE_def split: sum.split)

lemma andThen_chain:
  "andThen a (\<lambda>x. andThen m (\<lambda>d. andThen (f d) (\<lambda>b. andThen p
     (\<lambda>y. Inr (x @ xs @ ys @ b @ y)))))
   = appendE a (appendE (appendE (Inr (xs @ ys)) (case m of Inl e \<Rightarrow> Inl e | Inr d \<Rightarrow> f d)) p)"
  by (cases a; cases m; cases p) (simp_all add: andThen_def appendE_def split: sum.split)

lemma emit_appendE: "fst (emit xs r) = appendE (Inr xs) (fst r)"
  by (simp add: emit_def appendE_def split: sum.split)

lemma emitAfter_appendE:
  "fst (emitAfter inner here xs rest) = appendE (appendE (Inr xs) inner) (fst rest)"
  by (simp add: emitAfter_def emit_def appendE_def split: sum.split)

lemma snd_emit [simp]: "snd (emit xs r) = snd r"
  by (simp add: emit_def)

lemma snd_emitAfter:
  "snd (emitAfter inner here xs rest) = (case inner of Inl e \<Rightarrow> here | Inr ys \<Rightarrow> snd rest)"
  by (simp add: emitAfter_def split: sum.split)

lemma combineLoop_top_diff: "snd (combineLoop md [] sk i diff) = diff"
proof (induction md "[] :: seg list" sk i diff rule: combineLoop.induct)
  case (1 md sk i diff)
  show ?case
    apply (subst combineLoop.simps [of md "[]" sk i])
    using 1 apply (simp add: Let_def snd_emitAfter split: option.split sum.split)
    done
qed

lemma combineLoop_top_shift:
  "fst (combineLoop md [] sk (Suc i) (x # xs)) = fst (combineLoop md [] sk i xs)"
proof (induction md "[] :: seg list" sk i xs rule: combineLoop.induct)
  case (1 md sk i xs)
  show ?case
    apply (subst combineLoop.simps [of md "[]" sk "Suc i"])
    apply (subst combineLoop.simps [of md "[]" sk i])
    using 1 apply (simp add: Let_def emit_appendE emitAfter_appendE
        split: option.split cong: sum.case_cong if_cong)
    done
qed

lemma combineLoop_Nil: "combineLoop md p sk i [] = (Inr [], [])"
  by (subst combineLoop.simps) simp

lemma combineLoop_top_skip:
  "fst (combineLoop md [] True 0 rest) = fst (combineLoop md [] False 0 (tl rest))"
proof (cases rest)
  case Nil
  then show ?thesis by (simp add: combineLoop_Nil)
next
  case (Cons x xs)
  then show ?thesis
    by (subst combineLoop.simps) (simp add: combineLoop_top_shift)
qed

lemma combineRenameDiffs_Nil: "combineRenameDiffs md [] p = Inr []"
  by (simp add: combineRenameDiffs_def combineLoop_Nil)

lemma renameCandidate_None [simp]: "renameCandidate c None = None"
  by (simp add: renameCandidate_def nextCreate_def)

lemma renameCandidate_not_create:
  "type n \<noteq> CREATE \<Longrightarrow> renameCandidate c (Some n) = None"
  by (simp add: renameCandidate_def nextCreate_def)

lemma renameCandidate_pair:
  "type r = REMOVE \<Longrightarrow> type c = CREATE \<Longrightarrow> renameCandidate r (Some c) = Some c"
  by (simp add: renameCandidate_def nextCreate_def)

lemma combineRenameDiffs_top_Cons:
  "combineRenameDiffs md (c # rest) [] =
     (if at (path c) 0 \<noteq> Key ''paths'' then appendE (Inr [c]) (combineRenameDiffs md rest [])
      else case renameCandidate c (case rest of [] \<Rightarrow> None | n # ns \<Rightarrow> Some n) of
          Some nxt \<Rightarrow>
            appendE (appendE (Inr (renameEntries c nxt)) (innerCombined md c nxt))
              (combineRenameDiffs md (tl rest) [])
        | None \<Rightarrow> appendE (Inr [simplified c]) (combineRenameDiffs md rest []))"
proof (cases rest)
  case Nil
  show ?thesis
    unfolding combineRenameDiffs_def innerCombined_def
    apply (subst combineLoop.simps [of md "[]" False 0 "c # rest"])
    apply (simp add: Nil Let_def emit_appendE emitAfter_appendE combineLoop_Nil
        combineLoop_top_shift split: option.split cong: sum.case_cong if_cong)
    done
next
  case (Cons n rest')
  show ?thesis
    unfolding combineRenameDiffs_def innerCombined_def
    apply (subst combineLoop.simps [of md "[]" False 0 "c # rest"])
    apply (simp add: Cons Let_def emit_appendE emitAfter_appendE combineLoop_top_shift
        combineLoop_top_skip [of md "n # rest'"] split: option.split
        cong: sum.case_cong if_cong)
    done
qed

lemma combineRenameDiffs_top_append:
  "(case ys of [] \<Rightarrow> True | y # _ \<Rightarrow> type y \<noteq> CREATE) \<Longrightarrow>
   combineRenameDiffs md (xs @ ys) [] =
     appendE (combineRenameDiffs md xs []) (combineRenameDiffs md ys [])"
proof (induction xs rule: length_induct)
  case (1 xs)
  show ?case
  proof (cases xs)
    case Nil
    then show ?thesis by (simp add: combineRenameDiffs_Nil)
  next
    case (Cons c rest)
    note xs = Cons
    have IH_rest: "combineRenameDiffs md (rest @ ys) [] =
        appendE (combineRenameDiffs md rest []) (combineRenameDiffs md ys [])"
      using 1 xs by simp
    show ?thesis
    proof (cases rest)
      case Nil
      have "(case ys of [] \<Rightarrow> None | n # ns \<Rightarrow> Some n) = None \<or>
            (\<exists>n. (case ys of [] \<Rightarrow> None | n # ns \<Rightarrow> Some n) = Some n \<and> type n \<noteq> CREATE)"
        using 1(2) by (cases ys) simp_all
      then have "renameCandidate c (case ys of [] \<Rightarrow> None | n # ns \<Rightarrow> Some n) = None"
        by (auto simp: renameCandidate_not_create)
      then show ?thesis
        using xs Nil
        by (simp add: combineRenameDiffs_top_Cons [of md c ys]
            combineRenameDiffs_top_Cons [of md c "[]"] combineRenameDiffs_Nil)
    next
      case (Cons n rest')
      have IH_tl: "combineRenameDiffs md (rest' @ ys) [] =
          appendE (combineRenameDiffs md rest' []) (combineRenameDiffs md ys [])"
        using 1 xs Cons by simp
      show ?thesis
        using xs Cons IH_rest IH_tl
        by (simp add: combineRenameDiffs_top_Cons [of md c "n # rest' @ ys"]
            combineRenameDiffs_top_Cons [of md c "n # rest'"] appendE_assoc
            split: option.split)
    qed
  qed
qed

lemma combineRenameDiffs_top_pair:
  assumes "type r = REMOVE" and "at (path r) 0 = Key ''paths''" and "type c = CREATE"
  shows "combineRenameDiffs md (pre @ r # c # post) [] =
     appendE (combineRenameDiffs md pre [])
       (appendE (appendE (Inr (renameEntries r c)) (innerCombined md r c))
          (combineRenameDiffs md post []))"
proof -
  have "combineRenameDiffs md (pre @ r # c # post) [] =
      appendE (combineRenameDiffs md pre []) (combineRenameDiffs md (r # c # post) [])"
    using assms(1) by (intro combineRenameDiffs_top_append) simp
  then show ?thesis
    using assms
    by (simp add: combineRenameDiffs_top_Cons [of md r "c # post"] renameCandidate_pair)
qed

lemma combineLoop_nested_microdiff:
  "p \<noteq> [] \<Longrightarrow> combineLoop md p sk i diff = combineLoop md' p sk i diff"
proof (induction md p sk i diff rule: combineLoop.induct)
  case (1 md p sk i diff)
  show ?case
    apply (subst combineLoop.simps [of md p sk i])
    apply (subst combineLoop.simps [of md' p sk i])
    using 1 apply (simp add: Let_def split: option.split)
    done
qed

lemma isl_emit [simp]: "isl (fst (emit xs r)) = isl (fst r)"
  by (simp add: emit_def split: sum.split)

lemma isl_emitAfter_Inr [simp]: "isl (fst (emitAfter (Inr ys) here xs rest)) = isl (fst rest)"
  by (simp add: emitAfter_def)

lemma combineLoop_nested_returns:
  "p \<noteq> [] \<Longrightarrow> \<not> isl (fst (combineLoop md p sk i diff))"
proof (induction md p sk i diff rule: combineLoop.induct)
  case (1 md p sk i diff)
  show ?case
    apply (subst combineLoop.simps [of md p sk i])
    using 1 apply (simp add: Let_def split: option.split)
    done
qed

lemma combineRenameDiffs_nested_returns:
  "p \<noteq> [] \<Longrightarrow> \<exists>out. combineRenameDiffs md diff p = Inr out"
  using combineLoop_nested_returns [of p md False 0 diff]
  by (cases "fst (combineLoop md p False 0 diff)") (simp_all add: combineRenameDiffs_def)

text \<open>
  Claim C9, as the code has it. A call with the empty path prefix, which is the call
  a reconciliation pass makes, leaves the diff list it was given as it was: every entry and
  every path is unchanged after the call.
\<close>

theorem combineRenameDiffs_top_level_input_unmodified:
  "combineRenameDiffs_diff_after microdiff diff [] = diff"
  by (simp add: combineRenameDiffs_diff_after_def combineLoop_top_diff)

theorem combineRenameDiffs_top_level_input_unmodified_witness:
  "combineRenameDiffs_diff_after microdiff_model
     [\<lparr>type = REMOVE, path = [Key ''paths'', Key ''/pets'', Key ''get''],
        val = JUndefined, oldValue = JObj [(''summary'', JStr ''old'')]\<rparr>,
      \<lparr>type = CREATE, path = [Key ''paths'', Key ''/pets'', Key ''post''],
        val = JObj [(''summary'', JStr ''new'')], oldValue = JUndefined\<rparr>] []
   = [\<lparr>type = REMOVE, path = [Key ''paths'', Key ''/pets'', Key ''get''],
        val = JUndefined, oldValue = JObj [(''summary'', JStr ''old'')]\<rparr>,
      \<lparr>type = CREATE, path = [Key ''paths'', Key ''/pets'', Key ''post''],
        val = JObj [(''summary'', JStr ''new'')], oldValue = JUndefined\<rparr>]"
  by (rule combineRenameDiffs_top_level_input_unmodified)

text \<open>
  With a non-empty prefix the call assigns the prefixed path to the entries of its input:
  after the call the entry of the input list has the path \<^verbatim>\<open>paths./pets.summary\<close>, not the
  path \<^verbatim>\<open>summary\<close> it came with. So C9 does not hold for every path prefix.
\<close>

theorem combineRenameDiffs_nested_input_modified:
  "combineRenameDiffs_diff_after microdiff_model
     [\<lparr>type = CHANGE, path = [Key ''summary''], val = JStr ''new'', oldValue = JStr ''old''\<rparr>]
     [Key ''paths'', Key ''/pets'']
   = [\<lparr>type = CHANGE, path = [Key ''paths'', Key ''/pets'', Key ''summary''],
        val = JStr ''new'', oldValue = JStr ''old''\<rparr>]
   \<and> combineRenameDiffs_diff_after microdiff_model
     [\<lparr>type = CHANGE, path = [Key ''summary''], val = JStr ''new'', oldValue = JStr ''old''\<rparr>]
     [Key ''paths'', Key ''/pets'']
   \<noteq> [\<lparr>type = CHANGE, path = [Key ''summary''], val = JStr ''new'', oldValue = JStr ''old''\<rparr>]"
  by code_simp

text \<open>
  Claim C2, as the code has it. In a top-level call, take a REMOVE entry of the \<^verbatim>\<open>paths\<close>
  section that is immediately followed by a CREATE entry. The call first gives what the
  entries before the pair give; then it diffs the two bodies with the diff library, a call
  that is not guarded, so a throw of the library is a throw of \<^verbatim>\<open>combineRenameDiffs\<close>.
  When nothing throws, the pair is replaced, at its place between what the entries before
  and the entries after give, by: one CHANGE entry at \<^verbatim>\<open>paths.path\<close> from the old to the
  new path key when the two differ; then one CHANGE entry at \<^verbatim>\<open>paths.<new path>.method\<close>
  from the old to the new method when both method keys are truthy (present, not the empty
  string and not the number 0) and differ; then the combined diff of the two bodies under
  the new prefix. The CREATE entry is consumed: the output goes on with what the entries
  after it give.
\<close>

theorem rename_pair_replaced:
  assumes "type r = REMOVE" and "at (path r) 0 = Key ''paths''" and "type c = CREATE"
  shows "combineRenameDiffs microdiff (pre @ r # c # post) [] =
     andThen (combineRenameDiffs microdiff pre []) (\<lambda>before.
     andThen (microdiff (oldValue r) (val c)) (\<lambda>innerDiff.
     andThen (if innerDiff \<noteq> [] then
                combineRenameDiffs microdiff innerDiff
                  ([Key ''paths'', at (path c) 1]
                   @ (if seg_truthy (at (path r) 2) \<and> seg_truthy (at (path c) 2)
                         \<and> at (path r) 2 \<noteq> at (path c) 2 then [at (path c) 2] else []))
              else Inr []) (\<lambda>bodyEntries.
     andThen (combineRenameDiffs microdiff post []) (\<lambda>after.
       Inr (before
            @ (if at (path r) 1 \<noteq> at (path c) 1 then
                 [\<lparr>type = CHANGE, path = [Key ''paths'', Key ''path''],
                   val = seg_value (at (path c) 1), oldValue = seg_value (at (path r) 1)\<rparr>]
               else [])
            @ (if seg_truthy (at (path r) 2) \<and> seg_truthy (at (path c) 2)
                  \<and> at (path r) 2 \<noteq> at (path c) 2 then
                 [\<lparr>type = CHANGE, path = [Key ''paths'', at (path c) 1, Key ''method''],
                   val = seg_value (at (path c) 2), oldValue = seg_value (at (path r) 2)\<rparr>]
               else [])
            @ bodyEntries @ after)))))"
proof -
  have prefix: "nestedPrefix r c =
      [Key ''paths'', at (path c) 1]
      @ (if seg_truthy (at (path r) 2) \<and> seg_truthy (at (path c) 2)
            \<and> at (path r) 2 \<noteq> at (path c) 2 then [at (path c) 2] else [])"
    by (simp add: nestedPrefix_def methodRenamed_def Let_def)
  have entries: "renameEntries r c =
      (if at (path r) 1 \<noteq> at (path c) 1 then
         [\<lparr>type = CHANGE, path = [Key ''paths'', Key ''path''],
           val = seg_value (at (path c) 1), oldValue = seg_value (at (path r) 1)\<rparr>]
       else [])
      @ (if seg_truthy (at (path r) 2) \<and> seg_truthy (at (path c) 2)
            \<and> at (path r) 2 \<noteq> at (path c) 2 then
           [\<lparr>type = CHANGE, path = [Key ''paths'', at (path c) 1, Key ''method''],
             val = seg_value (at (path c) 2), oldValue = seg_value (at (path r) 2)\<rparr>]
         else [])"
    by (simp add: renameEntries_def methodRenamed_def Let_def)
  have "combineRenameDiffs microdiff (pre @ r # c # post) [] =
     appendE (combineRenameDiffs microdiff pre [])
       (appendE (appendE (Inr (renameEntries r c)) (innerCombined microdiff r c))
          (combineRenameDiffs microdiff post []))"
    by (rule combineRenameDiffs_top_pair [OF assms])
  then show ?thesis
    unfolding innerCombined_def prefix entries
    by (simp only: andThen_chain)
qed

theorem rename_pair_replaced_witness:
  "combineRenameDiffs microdiff_model
     [\<lparr>type = CHANGE, path = [Key ''info'', Key ''title''], val = JStr ''B'', oldValue = JStr ''A''\<rparr>,
      \<lparr>type = REMOVE, path = [Key ''paths'', Key ''/pets'', Key ''get''],
        val = JUndefined, oldValue = JObj [(''summary'', JStr ''old'')]\<rparr>,
      \<lparr>type = CREATE, path = [Key ''paths'', Key ''/animals'', Key ''post''],
        val = JObj [(''summary'', JStr ''new'')], oldValue = JUndefined\<rparr>] []
   = Inr
     [\<lparr>type = CHANGE, path = [Key ''info'', Key ''title''], val = JStr ''B'', oldValue = JStr ''A''\<rparr>,
      \<lparr>type = CHANGE, path = [Key ''paths'', Key ''path''],
        val = JStr ''/animals'', oldValue = JStr ''/pets''\<rparr>,
      \<lparr>type = CHANGE, path = [Key ''paths'', Key ''/animals'', Key ''method''],
        val = JStr ''post'', oldValue = JStr ''get''\<rparr>,
      \<lparr>type = CHANGE, path = [Key ''paths'', Key ''/animals'', Key ''post'', Key ''summary''],
        val = JStr ''new'', oldValue = JStr ''old''\<rparr>]"
proof -
  let ?r = "\<lparr>type = REMOVE, path = [Key ''paths'', Key ''/pets'', Key ''get''],
        val = JUndefined, oldValue = JObj [(''summary'', JStr ''old'')]\<rparr>"
  let ?c = "\<lparr>type = CREATE, path = [Key ''paths'', Key ''/animals'', Key ''post''],
        val = JObj [(''summary'', JStr ''new'')], oldValue = JUndefined\<rparr>"
  let ?i = "\<lparr>type = CHANGE, path = [Key ''info'', Key ''title''],
        val = JStr ''B'', oldValue = JStr ''A''\<rparr>"
  have bodies: "microdiff_model (JObj [(''summary'', JStr ''old'')])
      (JObj [(''summary'', JStr ''new'')])
    = Inr [\<lparr>type = CHANGE, path = [Key ''summary''], val = JStr ''new'',
            oldValue = JStr ''old''\<rparr>]"
    by code_simp
  have inner: "combineRenameDiffs microdiff_model
      [\<lparr>type = CHANGE, path = [Key ''summary''], val = JStr ''new'', oldValue = JStr ''old''\<rparr>]
      [Key ''paths'', Key ''/animals'', Key ''post'']
    = Inr [\<lparr>type = CHANGE, path = [Key ''paths'', Key ''/animals'', Key ''post'', Key ''summary''],
        val = JStr ''new'', oldValue = JStr ''old''\<rparr>]"
    by code_simp
  have pre: "combineRenameDiffs microdiff_model [?i] [] = Inr [?i]"
    by (simp add: combineRenameDiffs_top_Cons combineRenameDiffs_Nil at_def)
  show ?thesis
    using rename_pair_replaced [of ?r ?c microdiff_model "[?i]" "[]"] bodies inner pre
    by (simp add: at_def combineRenameDiffs_Nil andThen_def)
qed

text \<open>
  C2 as it is worded fails where a method key is present but falsy. The operation under the
  empty method key of \<^verbatim>\<open>/pets\<close> is removed and the operation \<^verbatim>\<open>get\<close> is created, with
  equal bodies: both method keys are present and they differ, yet no CHANGE entry for the
  method is emitted (the output is empty).
\<close>

theorem method_rename_needs_truthy_keys:
  "at (path \<lparr>type = REMOVE, path = [Key ''paths'', Key ''/pets'', Key ''''],
        val = JUndefined, oldValue = JObj []\<rparr>) 2 \<noteq> Undef
   \<and> at (path \<lparr>type = CREATE, path = [Key ''paths'', Key ''/pets'', Key ''get''],
        val = JObj [], oldValue = JUndefined\<rparr>) 2 \<noteq> Undef
   \<and> at (path \<lparr>type = REMOVE, path = [Key ''paths'', Key ''/pets'', Key ''''],
        val = JUndefined, oldValue = JObj []\<rparr>) 2
     \<noteq> at (path \<lparr>type = CREATE, path = [Key ''paths'', Key ''/pets'', Key ''get''],
        val = JObj [], oldValue = JUndefined\<rparr>) 2
   \<and> combineRenameDiffs microdiff_model
     [\<lparr>type = REMOVE, path = [Key ''paths'', Key ''/pets'', Key ''''],
        val = JUndefined, oldValue = JObj []\<rparr>,
      \<lparr>type = CREATE, path = [Key ''paths'', Key ''/pets'', Key ''get''],
        val = JObj [], oldValue = JUndefined\<rparr>] [] = Inr []"
  by code_simp

text \<open>
  Where the statement of C3 holds of the code: in a top-level call, a rename candidate
  whose bodies the diff library reports as equal (an empty diff) gives exactly the rename
  entries, between what the entries before and after give, and no entry from the bodies.
  The bodies are diffed at the outermost level only: a call with a non-empty prefix gives
  the same with any other diff function.
\<close>

lemma rename_with_unchanged_bodies:
  assumes "type r = REMOVE" and "at (path r) 0 = Key ''paths''" and "type c = CREATE"
    and "microdiff (oldValue r) (val c) = Inr []"
  shows "combineRenameDiffs microdiff (pre @ r # c # post) [] =
     appendE (combineRenameDiffs microdiff pre [])
       (appendE (Inr (renameEntries r c)) (combineRenameDiffs microdiff post []))"
  unfolding combineRenameDiffs_top_pair [OF assms(1-3), of microdiff pre post]
  using assms(4) by (simp add: innerCombined_def)

lemma nested_call_ignores_microdiff:
  "pathPrefix \<noteq> [] \<Longrightarrow>
   combineRenameDiffs microdiff diff pathPrefix = combineRenameDiffs microdiff' diff pathPrefix"
proof -
  assume "pathPrefix \<noteq> []"
  then have "combineLoop microdiff pathPrefix False 0 diff
      = combineLoop microdiff' pathPrefix False 0 diff"
    by (rule combineLoop_nested_microdiff)
  then show ?thesis
    by (simp only: combineRenameDiffs_def)
qed

text \<open>
  Claim C3 fails on the code where the diff library throws on the two bodies. In a
  top-level call, for a REMOVE entry of the \<^verbatim>\<open>paths\<close> section immediately followed by a
  CREATE entry, when the entries before the pair are combined without a throw and
  \<^verbatim>\<open>microdiff(current.oldValue, next.value)\<close> throws, \<^verbatim>\<open>combineRenameDiffs\<close> throws the same
  error: it produces no entries at all, neither the rename entries nor what the entries
  after the pair would give.
\<close>

theorem rename_pair_throws_when_body_diff_throws:
  assumes "type r = REMOVE" and "at (path r) 0 = Key ''paths''" and "type c = CREATE"
    and "combineRenameDiffs microdiff pre [] = Inr before"
    and "microdiff (oldValue r) (val c) = Inl err"
  shows "combineRenameDiffs microdiff (pre @ r # c # post) [] = Inl err"
  unfolding combineRenameDiffs_top_pair [OF assms(1-3), of microdiff pre post]
  using assms(4,5) by (simp add: innerCombined_def appendE_def)

text \<open>
  The failing input: the summary \<^verbatim>\<open>x\<close> of \<^verbatim>\<open>get /pets\<close> is removed and the description
  \<^verbatim>\<open>x\<close> is created. The two bodies are the equal strings \<^verbatim>\<open>x\<close>; path key and method key
  are unchanged, so there is no rename entry and C3 asks for the empty output. The diff
  library evaluates \<^verbatim>\<open>'0' in 'x'\<close>, a \<^verbatim>\<open>TypeError\<close>, and the call throws.
\<close>

theorem rename_pair_throws_when_body_diff_throws_witness:
  "oldValue \<lparr>type = REMOVE, path = [Key ''paths'', Key ''/pets'', Key ''get'', Key ''summary''],
        val = JUndefined, oldValue = JStr ''x''\<rparr>
     = val \<lparr>type = CREATE,
        path = [Key ''paths'', Key ''/pets'', Key ''get'', Key ''description''],
        val = JStr ''x'', oldValue = JUndefined\<rparr>
   \<and> renameEntries
        \<lparr>type = REMOVE, path = [Key ''paths'', Key ''/pets'', Key ''get'', Key ''summary''],
          val = JUndefined, oldValue = JStr ''x''\<rparr>
        \<lparr>type = CREATE,
          path = [Key ''paths'', Key ''/pets'', Key ''get'', Key ''description''],
          val = JStr ''x'', oldValue = JUndefined\<rparr> = []
   \<and> microdiff_model (JStr ''x'') (JStr ''x'') = Inl TypeError
   \<and> combineRenameDiffs microdiff_model
       [\<lparr>type = REMOVE, path = [Key ''paths'', Key ''/pets'', Key ''get'', Key ''summary''],
          val = JUndefined, oldValue = JStr ''x''\<rparr>,
        \<lparr>type = CREATE,
          path = [Key ''paths'', Key ''/pets'', Key ''get'', Key ''description''],
          val = JStr ''x'', oldValue = JUndefined\<rparr>] []
     = Inl TypeError"
proof -
  let ?r = "\<lparr>type = REMOVE, path = [Key ''paths'', Key ''/pets'', Key ''get'', Key ''summary''],
        val = JUndefined, oldValue = JStr ''x''\<rparr>"
  let ?c = "\<lparr>type = CREATE,
        path = [Key ''paths'', Key ''/pets'', Key ''get'', Key ''description''],
        val = JStr ''x'', oldValue = JUndefined\<rparr>"
  have throws: "microdiff_model (JStr ''x'') (JStr ''x'') = Inl TypeError"
    by code_simp
  have entries: "renameEntries ?r ?c = []"
    by (simp add: renameEntries_def methodRenamed_def at_def Let_def)
  have hyps: "type ?r = REMOVE" "at (path ?r) 0 = Key ''paths''" "type ?c = CREATE"
    "combineRenameDiffs microdiff_model [] [] = Inr []"
    "microdiff_model (oldValue ?r) (val ?c) = Inl TypeError"
    using throws by (simp_all add: at_def combineRenameDiffs_Nil)
  show ?thesis
    using rename_pair_throws_when_body_diff_throws
      [where r = ?r and c = ?c and microdiff = microdiff_model and pre = "[]"
         and before = "[]" and err = TypeError and post = "[]", OF hyps]
      throws entries
    by simp
qed

section \<open>Properties of traverseZodSchema\<close>

lemma unwrapSchema_not_wrapper: "\<not> is_wrapper (unwrapSchema schema)"
  by (induction schema rule: unwrapSchema.induct) simp_all

lemma unwrapSchema_idem: "unwrapSchema (unwrapSchema schema) = unwrapSchema schema"
  by (induction schema rule: unwrapSchema.induct) simp_all

lemma traverseZodSchema_Cons:
  "traverseZodSchema schema (k # rest) =
     (if unwrapSchema schema = ZodAny then Some (unwrapSchema schema)
      else case descend (unwrapSchema schema) k of
             None \<Rightarrow> None
           | Some nextSchema \<Rightarrow> traverseZodSchema (unwrapSchema nextSchema) rest)"
  by (simp only: traverseZodSchema.simps(2) [of schema k rest] Let_def)

lemma traverseZodSchema_Cons_not_wrapper:
  "traverseZodSchema schema (k # rest) = Some r \<Longrightarrow> \<not> is_wrapper r"
proof (induction rest arbitrary: schema k)
  case Nil
  then show ?case
    by (auto simp: Let_def unwrapSchema_not_wrapper split: if_splits option.splits)
next
  case (Cons k' rest)
  show ?case
  proof (cases "unwrapSchema schema = ZodAny")
    case True
    with Cons.prems have "r = unwrapSchema schema"
      by (simp add: traverseZodSchema_Cons [of schema k])
    then show ?thesis by (simp add: unwrapSchema_not_wrapper)
  next
    case False
    with Cons.prems obtain nextSchema where
      "traverseZodSchema (unwrapSchema nextSchema) (k' # rest) = Some r"
      by (auto simp: traverseZodSchema_Cons [of schema k] split: option.splits)
    then show ?thesis by (rule Cons.IH)
  qed
qed

text \<open>
  Claim C5, as the code has it. For every shape and every non-empty path, a shape that
  \<^verbatim>\<open>traverseZodSchema\<close> returns is never an optional or default wrapper, and the wrappers
  around the shape it starts from are stripped before the first segment is consumed. For the
  empty path the loop body never runs and the shape is returned as it was given.
\<close>

theorem traverseZodSchema_result_unwrapped:
  "(p \<noteq> [] \<longrightarrow> traverseZodSchema schema p = Some r \<longrightarrow> \<not> is_wrapper r)
   \<and> (p \<noteq> [] \<longrightarrow> traverseZodSchema schema p = traverseZodSchema (unwrapSchema schema) p)
   \<and> traverseZodSchema schema [] = Some schema"
proof (cases p)
  case Nil
  then show ?thesis by simp
next
  case (Cons k rest)
  then show ?thesis
    using traverseZodSchema_Cons_not_wrapper [of schema k rest r]
    by (simp add: unwrapSchema_idem)
qed

theorem traverseZodSchema_result_unwrapped_witness:
  "traverseZodSchema exampleServerSchema [Key ''description''] = Some ZodString
   \<and> \<not> is_wrapper ZodString
   \<and> traverseZodSchema (ZodOptional exampleServerSchema) [Key ''description'']
     = traverseZodSchema exampleServerSchema [Key ''description'']"
  using traverseZodSchema_result_unwrapped
    [of "[Key ''description'']" "ZodOptional exampleServerSchema" ZodString]
  by (simp add: exampleServerSchema_def descend_def shapeField_def)

text \<open>
  C5 includes the empty path, and there it fails: an optional shape comes back with its
  wrapper.
\<close>

theorem traverseZodSchema_empty_path_keeps_wrapper:
  "traverseZodSchema (ZodOptional ZodString) [] = Some (ZodOptional ZodString)
   \<and> is_wrapper (ZodOptional ZodString)"
  by simp

section \<open>Properties of findResource and narrowUnionSchema\<close>

lemma findResource_skip:
  "\<forall>x \<in> set pre. condition (lookup resources x) = Inr False \<Longrightarrow>
   findResource (pre @ rest) resources condition = findResource rest resources condition"
  by (induction pre) (simp_all add: Let_def)

text \<open>
  Claim C6, as the code has it. \<^verbatim>\<open>findResource\<close> scans the keys in order and calls the
  condition on what the table gives for each key: the entity, or \<^verbatim>\<open>undefined\<close> for a key
  the table does not have. Let the condition be false at every key of \<open>pre\<close>. If it holds
  at the next key \<open>u\<close>, the result is what the table gives for \<open>u\<close>, whatever keys follow. If
  it throws at the next key \<open>t\<close>, \<^verbatim>\<open>findResource\<close> throws the same error. And on \<open>pre\<close>
  alone, the empty list included, the result is \<^verbatim>\<open>null\<close> and nothing is thrown.
\<close>

theorem findResource_first_match:
  assumes "\<forall>x \<in> set pre. condition (lookup resources x) = Inr False"
  shows "(condition (lookup resources u) = Inr True \<longrightarrow>
            findResource (pre @ u # post) resources condition = Inr (lookup resources u))
     \<and> (condition (lookup resources t) = Inl e \<longrightarrow>
            findResource (pre @ t # post') resources condition = Inl e)
     \<and> findResource pre resources condition = Inr JNull
     \<and> findResource [] resources condition = Inr JNull"
  using findResource_skip [OF assms, of "u # post"] findResource_skip [OF assms, of "t # post'"]
    findResource_skip [OF assms, of "[]"]
  by (simp add: Let_def)

theorem findResource_first_match_witness:
  "findResource [''srv0'', ''srv1'', ''gone''] exampleServers
      (\<lambda>r. andThen (getProp r ''url'') (\<lambda>url. Inr (strictEq url (JStr ''https://b.example''))))
   = Inr (JObj [(''uid'', JStr ''srv1''), (''url'', JStr ''https://b.example''),
                (''variables'', JObj [(''v'', JObj [(''default'', JStr ''1'')])])])
   \<and> findResource [''srv0'', ''gone'', ''srv1''] exampleServers
      (\<lambda>r. andThen (getProp r ''url'') (\<lambda>url. Inr (strictEq url (JStr ''https://b.example''))))
   = Inl TypeError
   \<and> findResource [''srv0''] exampleServers
      (\<lambda>r. andThen (getProp r ''url'') (\<lambda>url. Inr (strictEq url (JStr ''https://b.example''))))
   = Inr JNull"
proof -
  let ?condition = "\<lambda>r. andThen (getProp r ''url'')
      (\<lambda>url. Inr (strictEq url (JStr ''https://b.example'')))"
  have pre: "\<forall>x \<in> set [''srv0'']. ?condition (lookup exampleServers x) = Inr False"
    by (simp add: exampleServers_def lookup_def getProp_def nullish_def field_def andThen_def
        strictEq_def)
  have here: "?condition (lookup exampleServers ''srv1'') = Inr True"
    "lookup exampleServers ''srv1''
      = JObj [(''uid'', JStr ''srv1''), (''url'', JStr ''https://b.example''),
              (''variables'', JObj [(''v'', JObj [(''default'', JStr ''1'')])])]"
    "?condition (lookup exampleServers ''gone'') = Inl TypeError"
    by (simp_all add: exampleServers_def lookup_def getProp_def nullish_def field_def
        andThen_def strictEq_def inheritedKeys_def)
  note th = findResource_first_match
    [where pre = "[''srv0'']" and condition = ?condition and resources = exampleServers
       and u = "''srv1''" and post = "[''gone'']" and t = "''gone''" and post' = "[''srv1'']"
       and e = TypeError, OF pre]
  from th here show ?thesis
    by simp
qed

text \<open>
  C6 says that a key missing from the table gives not-found and that nothing is ever thrown.
  The code calls the condition on \<^verbatim>\<open>undefined\<close> for such a key. The condition the request
  builder passes reads \<^verbatim>\<open>r.path\<close>, which throws. A condition that accepts anything gets
  \<^verbatim>\<open>undefined\<close> back, which is neither not-found (\<^verbatim>\<open>null\<close>) nor an entity of the table,
  although the next key has one.
\<close>

theorem findResource_missing_key_throws:
  "exampleRequests ''gone'' = None
   \<and> findResource [''gone''] exampleRequests (requestAt (Key ''/pets'') (Key ''get''))
     = Inl TypeError
   \<and> exampleServers ''gone'' = None
   \<and> exampleServers ''srv1'' \<noteq> None
   \<and> findResource [''gone'', ''srv1''] exampleServers (\<lambda>r. Inr True) = Inr JUndefined
   \<and> JUndefined \<noteq> JNull"
  by (simp add: exampleRequests_def exampleServers_def lookup_def requestAt_def getProp_def
      nullish_def andThen_def inheritedKeys_def)

lemma firstOption_find:
  "firstOption k v opts =
     find (\<lambda>opt. \<exists>shape. opt = ZodObject shape \<and> map_of shape k = Some (ZodLiteral v)) opts"
proof (induction opts)
  case Nil
  then show ?case by simp
next
  case (Cons opt opts)
  have "optionMatches k v opt
      = (\<exists>shape. opt = ZodObject shape \<and> map_of shape k = Some (ZodLiteral v))"
    by (auto simp: optionMatches_def split: zschema.splits option.splits)
  with Cons show ?case by auto
qed

text \<open>
  Claim C7. \<^verbatim>\<open>narrowUnionSchema\<close> unwraps the shape; for a union or a discriminated union
  it returns the first option, in declaration order, that is an object whose field \<open>k\<close> is
  the literal \<open>v\<close>; when no option is one, or the unwrapped shape is not a union, it returns
  \<^verbatim>\<open>null\<close> and no default option.
\<close>

theorem narrowUnionSchema_first_matching_variant:
  "narrowUnionSchema schema k v =
     (case unwrapSchema schema of
        ZodUnion opts \<Rightarrow>
          find (\<lambda>opt. \<exists>shape. opt = ZodObject shape \<and> map_of shape k = Some (ZodLiteral v)) opts
      | ZodDiscriminatedUnion d opts \<Rightarrow>
          find (\<lambda>opt. \<exists>shape. opt = ZodObject shape \<and> map_of shape k = Some (ZodLiteral v)) opts
      | _ \<Rightarrow> None)"
  by (simp add: narrowUnionSchema_def firstOption_find split: zschema.split)

theorem narrowUnionSchema_first_matching_variant_witness:
  "narrowUnionSchema (ZodOptional exampleFlowSchema) ''type'' (JStr ''password'')
     = Some (ZodObject [(''type'', ZodLiteral (JStr ''password'')),
                        (''tokenUrl'', ZodString),
                        (''scopes'', ZodRecord ZodString)])
   \<and> narrowUnionSchema exampleFlowSchema ''type'' (JStr ''clientCredentials'') = None
   \<and> narrowUnionSchema exampleServerSchema ''type'' (JStr ''password'') = None"
  using narrowUnionSchema_first_matching_variant
    [of "ZodOptional exampleFlowSchema" "''type''" "JStr ''password''"]
  by (simp add: narrowUnionSchema_def exampleFlowSchema_def exampleServerSchema_def
      optionMatches_def)

section \<open>Properties of parseDiff and of the builders\<close>


lemma parseDiff_valid_or_none:
  "(type d \<noteq> REMOVE \<longrightarrow> parseDiff sp schema d = Inr (Some r) \<longrightarrow>
       (\<exists>s. resolvesTo schema (path d) s \<and> sp s (val d) = Some (parsedValue r)))
   \<and> (traverseZodSchema schema (path d) = None \<longrightarrow> parseDiff sp schema d = Inr None)
   \<and> (type d \<noteq> REMOVE \<longrightarrow> resolvesTo schema (path d) s \<longrightarrow> sp s (val d) = None \<longrightarrow>
        parseDiff sp schema d = Inr None)"
  by (auto simp: parseDiff_def resolvesTo_def schemaModel_def andThen_def Let_def
      split: option.splits if_splits)

lemma parseDiff_REMOVE:
  "type d = REMOVE \<Longrightarrow> traverseZodSchema schema (path d) = Some s \<Longrightarrow>
   parseDiff sp schema d =
     Inr (Some \<lparr>parsedPath = joinPath (path d), pathMinusOne = joinPath (butlast (path d)),
                parsedValue = JUndefined\<rparr>)"
  by (simp add: parseDiff_def)

text \<open>
  Claim C4 fails on the code at a path that does not exist in the shape but names a key
  that every object inherits. For an object shape without a field \<open>name\<close> of its own, where
  \<open>name\<close> is an inherited key, \<^verbatim>\<open>key in currentSchema.shape\<close> holds and
  \<^verbatim>\<open>traverseZodSchema\<close> returns what \<^verbatim>\<open>shape[name]\<close> reads, which is not a schema and not
  \<^verbatim>\<open>null\<close>; \<^verbatim>\<open>parseDiff\<close> on an entry that is not a REMOVE then calls the parse on it and
  throws a \<^verbatim>\<open>TypeError\<close>, where C4 says it returns failure.
\<close>

theorem parseDiff_throws_on_inherited_key:
  assumes "type d \<noteq> REMOVE" and "path d = [Key name]"
    and "name \<in> set inheritedKeys" and "map_of shape name = None"
  shows "traverseZodSchema (ZodObject shape) (path d) = Some NotASchema
     \<and> parseDiff sp (ZodObject shape) d = Inl TypeError"
  using assms
  by (simp add: parseDiff_def schemaModel_def andThen_def descend_def shapeField_def)

theorem parseDiff_throws_on_inherited_key_witness:
  "traverseZodSchema (ZodObject [(''title'', ZodString)]) [Key ''constructor'']
     = Some NotASchema
   \<and> parseDiff zodSafeParse (ZodObject [(''title'', ZodString)])
       \<lparr>type = CHANGE, path = [Key ''constructor''], val = JStr ''x'', oldValue = JStr ''y''\<rparr>
     = Inl TypeError"
proof -
  let ?d = "\<lparr>type = CHANGE, path = [Key ''constructor''], val = JStr ''x'',
      oldValue = JStr ''y''\<rparr>"
  have hyps: "type ?d \<noteq> REMOVE" "path ?d = [Key ''constructor'']"
    "''constructor'' \<in> set inheritedKeys" "map_of [(''title'', ZodString)] ''constructor'' = None"
    by (simp_all add: inheritedKeys_def)
  show ?thesis
    using parseDiff_throws_on_inherited_key
      [where d = ?d and name = "''constructor''" and shape = "[(''title'', ZodString)]"
         and sp = zodSafeParse, OF hyps]
    by simp
qed

text \<open>
  Claim C8. For a REMOVE entry at \<^verbatim>\<open>servers.i\<close> followed by a path that ends in
  \<^verbatim>\<open>variables\<close> and resolves in the server shape, where the collection's server list has a
  server at index \<open>i\<close>, \<^verbatim>\<open>diffToServerPayload\<close> gives an edit of that server at the path
  whose value is the empty object, not the \<^verbatim>\<open>undefined\<close> that was parsed.
\<close>

theorem remove_variables_emits_empty_object:
  assumes "type diff = REMOVE"
    and "path diff = section # Idx i # keys"
    and "keys \<noteq> []" and "last keys = Key ''variables''"
    and "i < length (servers c)"
    and "serverTable (servers c ! i) = Some server" and "truthy server"
    and "traverseZodSchema (serverSchema e) keys = Some s"
  shows "diffToServerPayload e diff c serverTable =
     Inr (Some (Payload ''edit'' [JStr (servers c ! i), JStr (joinPath keys), JObj []]))"
proof -
  have "parseDiff (safeParse e) (serverSchema e) (diff\<lparr>path := keys\<rparr>) =
     Inr (Some \<lparr>parsedPath = joinPath keys, pathMinusOne = joinPath (butlast keys),
                parsedValue = JUndefined\<rparr>)"
    using assms(1,8) by (simp add: parseDiff_REMOVE)
  then show ?thesis
    using assms
    by (simp add: diffToServerPayload_def Let_def at_def uidAt_def uidKey_def uidValue_def
        lookup_def at_last_def andThen_def)
qed

theorem remove_variables_emits_empty_object_witness:
  "diffToServerPayload exampleEnv
     \<lparr>type = REMOVE, path = [Key ''servers'', Idx 1, Key ''variables''], val = JUndefined,
      oldValue = JObj [(''v'', JObj [(''default'', JStr ''1'')])]\<rparr>
     exampleCollection exampleServers
   = Inr (Some (Payload ''edit'' [JStr ''srv1'', JStr ''variables'', JObj []]))"
proof -
  let ?d = "\<lparr>type = REMOVE, path = [Key ''servers'', Idx 1, Key ''variables''],
      val = JUndefined, oldValue = JObj [(''v'', JObj [(''default'', JStr ''1'')])]\<rparr>"
  have hyps: "type ?d = REMOVE" "path ?d = Key ''servers'' # Idx 1 # [Key ''variables'']"
    "[Key ''variables''] \<noteq> []" "last [Key ''variables''] = Key ''variables''"
    "1 < length (servers exampleCollection)"
    "exampleServers (servers exampleCollection ! 1)
      = Some (JObj [(''uid'', JStr ''srv1''), (''url'', JStr ''https://b.example''),
                    (''variables'', JObj [(''v'', JObj [(''default'', JStr ''1'')])])])"
    "truthy (JObj [(''uid'', JStr ''srv1''), (''url'', JStr ''https://b.example''),
                    (''variables'', JObj [(''v'', JObj [(''default'', JStr ''1'')])])])"
    "traverseZodSchema (serverSchema exampleEnv) [Key ''variables'']
      = Some (ZodRecord (ZodObject [(''default'', ZodString)]))"
    by (simp_all add: exampleCollection_def exampleServers_def exampleEnv_def
        exampleServerSchema_def descend_def shapeField_def)
  show ?thesis
    using remove_variables_emits_empty_object
      [where diff = ?d and serverTable = exampleServers and c = exampleCollection
         and e = exampleEnv and i = 1 and keys = "[Key ''variables'']", OF hyps]
    by (simp add: exampleCollection_def)
qed

text \<open>
  Claim C10. For a CREATE entry at \<^verbatim>\<open>paths.p\<close>, with no method segment, whose value is
  the empty object, \<^verbatim>\<open>diffToRequestPayload\<close> throws: \<^verbatim>\<open>Object.entries\<close> of the value is
  empty and the destructuring of its first entry is a \<^verbatim>\<open>TypeError\<close>. It does not return an
  empty list of commands.
\<close>

theorem create_path_with_empty_value_throws:
  "diffToRequestPayload e
     \<lparr>type = CREATE, path = [Key ''paths'', Key p], val = JObj [], oldValue = JUndefined\<rparr>
     c requestTable
   = Inl TypeError"
  by (simp add: diffToRequestPayload_def createRequest_def requestPayloadOf_def Let_def at_def
      at_last_def objectEntries_def nullish_def andThen_def)

theorem create_path_with_empty_value_throws_witness:
  "diffToRequestPayload exampleEnv
     \<lparr>type = CREATE, path = [Key ''paths'', Key ''/new''], val = JObj [], oldValue = JUndefined\<rparr>
     exampleCollection exampleRequests
   = Inl TypeError"
  by (rule create_path_with_empty_value_throws)

section \<open>What the commands of the builders carry\<close>





















end
